theory Spec2Isabelle
  imports
    Main
    "HOL-Library.Char_ord"
    "HOL-Library.List_Lexorder"
    "HOL-Library.Product_Lexorder"
    "HOL-Library.Log_Nat"
    "HOL-Library.Multiset"
    "HOL-Library.AList"
begin

section \<open>Python strings\<close>

text \<open>
  A Python string is modelled as a \<^typ>\<open>string\<close>, each \<^typ>\<open>char\<close> standing for the code point
  of that number (0 to 255).  The order on strings is the lexicographic order on code points,
  as Python's \<^verbatim>\<open><\<close> on \<^verbatim>\<open>str\<close>.
\<close>

definition is_space :: "char \<Rightarrow> bool" where
  \<comment> \<open>\<^verbatim>\<open>str.isspace\<close> and the regex class \<^verbatim>\<open>\s\<close> on the code points below 256\<close>
  "is_space c = (of_char c \<in> {9, 10, 11, 12, 13, 28, 29, 30, 31, 32, 133, 160 :: nat})"

definition strip_with :: "(char \<Rightarrow> bool) \<Rightarrow> string \<Rightarrow> string" where
  "strip_with P s = rev (dropWhile P (rev (dropWhile P s)))"

definition strip :: "string \<Rightarrow> string" where
  \<comment> \<open>\<^verbatim>\<open>s.strip()\<close>\<close>
  "strip s = strip_with is_space s"

definition strip_chars :: "string \<Rightarrow> string \<Rightarrow> string" where
  \<comment> \<open>\<^verbatim>\<open>s.strip(chars)\<close>\<close>
  "strip_chars cs s = strip_with (\<lambda>c. c \<in> set cs) s"

definition lower_char :: "char \<Rightarrow> char" where
  \<comment> \<open>\<^verbatim>\<open>str.lower\<close> on one code point below 256: A-Z, and the capital letters of Latin-1\<close>
  "lower_char c =
     (let n = of_char c :: nat
      in if (65 \<le> n \<and> n \<le> 90) \<or> (192 \<le> n \<and> n \<le> 222 \<and> n \<noteq> 215)
         then char_of (n + 32) else c)"

definition lower :: "string \<Rightarrow> string" where
  "lower s = map lower_char s"

definition is_alnum :: "char \<Rightarrow> bool" where
  \<comment> \<open>the regex class \<^verbatim>\<open>[a-z0-9]\<close>\<close>
  "is_alnum c =
     (let n = of_char c :: nat in (97 \<le> n \<and> n \<le> 122) \<or> (48 \<le> n \<and> n \<le> 57))"

function sub_runs :: "(char \<Rightarrow> bool) \<Rightarrow> string \<Rightarrow> string" where
  \<comment> \<open>\<^verbatim>\<open>re.sub(r"C+", " ", s)\<close> for a character class \<open>C\<close>: every maximal run becomes one space\<close>
  "sub_runs P [] = []"
| "sub_runs P (c # cs) =
     (if P c then CHR '' '' # sub_runs P (dropWhile P cs) else c # sub_runs P cs)"
  by pat_completeness auto
termination
  by (relation "measure (\<lambda>(P, s). length s)")
     (auto simp: less_Suc_eq_le length_dropWhile_le)

definition normalize_text :: "string \<Rightarrow> string" where
  "normalize_text v =
     (let v1 = lower v;
          v2 = sub_runs (\<lambda>c. \<not> is_alnum c) v1
      in strip (sub_runs is_space v2))"

fun join :: "string \<Rightarrow> string list \<Rightarrow> string" where
  \<comment> \<open>\<^verbatim>\<open>sep.join(parts)\<close>\<close>
  "join sep [] = []"
| "join sep [p] = p"
| "join sep (p # q # ps) = p @ sep @ join sep (q # ps)"

fun split_bars :: "string \<Rightarrow> string \<Rightarrow> string list" where
  \<comment> \<open>\<^verbatim>\<open>blob.split(" || ")\<close>, the characters of the current part accumulated in reverse\<close>
  "split_bars acc [] = [rev acc]"
| "split_bars acc (c # cs) =
     (if take 4 (c # cs) = '' || '' then rev acc # split_bars [] (drop 3 cs)
      else split_bars (c # acc) cs)"

fun digits :: "nat \<Rightarrow> string" where
  "digits n =
     (if n < 10 then [char_of (48 + n)] else digits (n div 10) @ [char_of (48 + n mod 10)])"

definition str_of_int :: "int \<Rightarrow> string" where
  \<comment> \<open>\<^verbatim>\<open>str(i)\<close> for an integer\<close>
  "str_of_int i = (if i < 0 then CHR ''-'' # digits (nat (- i)) else digits (nat i))"

definition hex_digit :: "nat \<Rightarrow> char" where
  "hex_digit d = (if d < 10 then char_of (48 + d) else char_of (87 + d))"

definition escape_char :: "char \<Rightarrow> char \<Rightarrow> string" where
  \<comment> \<open>one character of \<^verbatim>\<open>repr(s)\<close>, inside the quote \<open>q\<close>\<close>
  "escape_char q c =
     (let n = of_char c :: nat
      in if c = q \<or> n = 92 then [CHR 0x5C, c]
         else if n = 9 then [CHR 0x5C, CHR ''t'']
         else if n = 10 then [CHR 0x5C, CHR ''n'']
         else if n = 13 then [CHR 0x5C, CHR ''r'']
         else if n < 32 \<or> n = 127 \<or> (127 < n \<and> n \<le> 160) \<or> n = 173
           then [CHR 0x5C, CHR ''x'', hex_digit (n div 16), hex_digit (n mod 16)]
         else [c])"

definition repr_str :: "string \<Rightarrow> string" where
  \<comment> \<open>\<^verbatim>\<open>repr(s)\<close> for a string: single quotes, unless it has a single quote and no double one\<close>
  "repr_str s =
     (let q = (if CHR 0x27 \<in> set s \<and> CHR 0x22 \<notin> set s then CHR 0x22 else CHR 0x27)
      in q # concat (map (escape_char q) s) @ [q])"

section \<open>JSON values as Python reads them\<close>

text \<open>
  What \<^verbatim>\<open>json.loads\<close> returns: \<^verbatim>\<open>None\<close>, a \<^verbatim>\<open>bool\<close>, an \<^verbatim>\<open>int\<close>, a \<^verbatim>\<open>float\<close>, a
  \<^verbatim>\<open>str\<close>, a \<^verbatim>\<open>list\<close> or a \<^verbatim>\<open>dict\<close> with string keys (an association list in insertion order,
  its keys distinct).  A float inside a record is only ever passed to \<^verbatim>\<open>str\<close>, \<^verbatim>\<open>bool\<close> and
  \<^verbatim>\<open>isinstance\<close>, so it is carried as its \<^verbatim>\<open>repr\<close>, which determines it.
\<close>

datatype json =
    JNull
  | JBool bool
  | JInt int
  | JFloat string
  | JStr string
  | JArr "json list"
  | JObj "(string \<times> json) list"

fun py_repr :: "json \<Rightarrow> string" where
  "py_repr JNull = ''None''"
| "py_repr (JBool b) = (if b then ''True'' else ''False'')"
| "py_repr (JInt i) = str_of_int i"
| "py_repr (JFloat s) = s"
| "py_repr (JStr s) = repr_str s"
| "py_repr (JArr xs) = ''['' @ join '', '' (map py_repr xs) @ '']''"
| "py_repr (JObj kvs) =
     ''{'' @ join '', '' (map (\<lambda>(k, v). repr_str k @ '': '' @ py_repr v) kvs) @ ''}''"

definition py_str :: "json \<Rightarrow> string" where
  \<comment> \<open>\<^verbatim>\<open>str(v)\<close>\<close>
  "py_str v = (case v of JStr s \<Rightarrow> s | _ \<Rightarrow> py_repr v)"

definition py_bool :: "json \<Rightarrow> bool" where
  \<comment> \<open>\<^verbatim>\<open>bool(v)\<close>\<close>
  "py_bool v =
     (case v of
        JNull \<Rightarrow> False
      | JBool b \<Rightarrow> b
      | JInt i \<Rightarrow> i \<noteq> 0
      | JFloat s \<Rightarrow> s \<noteq> ''0.0'' \<and> s \<noteq> ''-0.0''
      | JStr s \<Rightarrow> s \<noteq> []
      | JArr xs \<Rightarrow> xs \<noteq> []
      | JObj kvs \<Rightarrow> kvs \<noteq> [])"

definition as_int :: "json \<Rightarrow> int option" where
  \<comment> \<open>\<^verbatim>\<open>isinstance(v, int)\<close>, with the integer; a \<^verbatim>\<open>bool\<close> is an \<^verbatim>\<open>int\<close> in Python\<close>
  "as_int v =
     (case v of JInt i \<Rightarrow> Some i | JBool b \<Rightarrow> Some (if b then 1 else 0) | _ \<Rightarrow> None)"

section \<open>Finding records and merged findings\<close>

text \<open>
  An input finding is a \<^verbatim>\<open>dict\<close> read from JSON; its fields are looked up by name and may be
  absent or hold any JSON value.
\<close>

type_synonym finding = "(string \<times> json) list"

definition get_or :: "finding \<Rightarrow> string \<Rightarrow> json \<Rightarrow> json" where
  \<comment> \<open>\<^verbatim>\<open>record.get(k, d)\<close>\<close>
  "get_or r k d = (case map_of r k of None \<Rightarrow> d | Some v \<Rightarrow> v)"

definition get_str :: "finding \<Rightarrow> string \<Rightarrow> string \<Rightarrow> string" where
  \<comment> \<open>\<^verbatim>\<open>str(record.get(k, d)).strip()\<close>\<close>
  "get_str r k d = strip (py_str (get_or r k (JStr d)))"

definition dict_get :: "(string \<times> 'v) list \<Rightarrow> string \<Rightarrow> 'v \<Rightarrow> 'v" where
  \<comment> \<open>\<^verbatim>\<open>table.get(k, d)\<close> on one of the constant tables\<close>
  "dict_get t k d = (case map_of t k of None \<Rightarrow> d | Some v \<Rightarrow> v)"


definition TIER_WEIGHT :: "(string \<times> int) list" where
  "TIER_WEIGHT = [(''T1'', 20), (''T2'', 10), (''T3'', 4), (''T4'', 1)]"

definition SEVERITY_RANK :: "(string \<times> int) list" where
  "SEVERITY_RANK = [(''high'', 3), (''med'', 2), (''low'', 1)]"

definition CONFIDENCE_RANK :: "(string \<times> int) list" where
  "CONFIDENCE_RANK = [(''high'', 3), (''med'', 2), (''low'', 1)]"

definition TIER_RANK :: "(string \<times> int) list" where
  "TIER_RANK = [(''T1'', 4), (''T2'', 3), (''T3'', 2), (''T4'', 1)]"

record merged =
  fid :: string
  tier :: string
  detector :: string
  severity :: string
  file_path :: string  \<comment> \<open>the key \<^verbatim>\<open>file\<close>\<close>
  line :: json
  summary :: string
  evidence :: string
  recommended_fix :: string
  confidence :: string
  status :: string
  conflict_note :: string
  needs_validation :: bool
  sources :: "string list"

definition stronger :: "string \<Rightarrow> string \<Rightarrow> (string \<times> int) list \<Rightarrow> string" where
  "stronger current candidate rank =
     (if dict_get rank candidate 0 > dict_get rank current 0 then candidate else current)"

fun add_parts :: "string list \<Rightarrow> string list \<Rightarrow> string list" where
  \<comment> \<open>the inner loop of \<^verbatim>\<open>merge_evidence\<close>; \<^verbatim>\<open>seen\<close> is the set of \<^verbatim>\<open>parts\<close>\<close>
  "add_parts parts [] = parts"
| "add_parts parts (p # ps) =
     add_parts (if p \<noteq> [] \<and> p \<notin> set parts then parts @ [p] else parts) ps"

definition merge_evidence :: "string \<Rightarrow> string \<Rightarrow> string" where
  "merge_evidence old new =
     join '' || ''
       (add_parts (add_parts [] (map strip (split_bars [] old))) (map strip (split_bars [] new)))"

definition normalized_fingerprint :: "finding \<Rightarrow> string" where
  "normalized_fingerprint record =
     (let det = get_str record ''detector'' [];
          fpath = get_str record ''file'' [];
          nsummary = normalize_text (py_str (get_or record ''summary'' (JStr [])))
      in det @ ''|'' @ fpath @ ''|'' @ nsummary)"

definition initial_record :: "finding \<Rightarrow> merged" where
  "initial_record record =
     \<lparr> fid = (let i = get_str record ''id'' [] in if i \<noteq> [] then i else ''pending''),
       tier = get_str record ''tier'' ''T4'',
       detector = get_str record ''detector'' [],
       severity = get_str record ''severity'' ''low'',
       file_path = get_str record ''file'' [],
       line = get_or record ''line'' JNull,
       summary = get_str record ''summary'' [],
       evidence = get_str record ''evidence'' [],
       recommended_fix = get_str record ''recommended_fix'' [],
       confidence = get_str record ''confidence'' ''low'',
       status = get_str record ''status'' ''open'',
       conflict_note = get_str record ''conflict_note'' [],
       needs_validation = py_bool (get_or record ''needs_validation'' (JBool False)),
       sources = [py_str (get_or record ''_source'' (JStr []))] \<rparr>"

definition rank_conflict :: "string \<Rightarrow> string \<Rightarrow> string \<Rightarrow> string list" where
  \<comment> \<open>the conflict entry of one rank field: \<^verbatim>\<open>f"{field}: {old_value} vs {new_value}"\<close>\<close>
  "rank_conflict field old_value new_value =
     (if new_value \<noteq> old_value then [field @ '': '' @ old_value @ '' vs '' @ new_value]
      else [])"

definition conflicts :: "merged \<Rightarrow> finding \<Rightarrow> string list" where
  \<comment> \<open>the list \<^verbatim>\<open>conflicts\<close> that \<^verbatim>\<open>merge_record\<close> builds, in the order of its appends; each
      entry compares the candidate with the value the field has before the fold\<close>
  "conflicts existing candidate =
     rank_conflict ''tier'' (tier existing) (get_str candidate ''tier'' (tier existing))
     @ rank_conflict ''severity'' (severity existing)
         (get_str candidate ''severity'' (severity existing))
     @ rank_conflict ''confidence'' (confidence existing)
         (get_str candidate ''confidence'' (confidence existing))
     @ (let new_fix = get_str candidate ''recommended_fix'' []
        in if new_fix \<noteq> [] \<and> new_fix \<noteq> recommended_fix existing
           then [''recommended_fix differs''] else [])
     @ (let new_status = get_str candidate ''status'' ''open''
        in if new_status \<noteq> status existing
           then [''status: '' @ status existing @ '' vs '' @ new_status] else [])"

definition merge_line :: "json \<Rightarrow> json \<Rightarrow> json" where
  \<comment> \<open>the line kept by \<^verbatim>\<open>merge_record\<close>, from \<^verbatim>\<open>old_line\<close> and \<^verbatim>\<open>new_line\<close>\<close>
  "merge_line old_line new_line =
     (case as_int new_line of
        Some n \<Rightarrow>
          if n > 0 \<and>
             (old_line = JNull \<or> (case as_int old_line of Some m \<Rightarrow> n < m | None \<Rightarrow> False))
          then new_line else old_line
      | None \<Rightarrow> old_line)"

definition merge_record :: "merged \<Rightarrow> finding \<Rightarrow> merged" where
  "merge_record existing candidate =
     (let cs = conflicts existing candidate;
          new_summary = get_str candidate ''summary'' [];
          new_fix = get_str candidate ''recommended_fix'' [];
          old_fix = recommended_fix existing;
          new_status = get_str candidate ''status'' ''open'';
          new_needs_validation = py_bool (get_or candidate ''needs_validation'' (JBool False));
          merged_note = conflict_note existing;
          detail = join ''; '' (sort (remdups cs))
      in existing
         \<lparr> tier := stronger (tier existing)
             (get_str candidate ''tier'' (tier existing)) TIER_RANK,
           severity := stronger (severity existing)
             (get_str candidate ''severity'' (severity existing)) SEVERITY_RANK,
           confidence := stronger (confidence existing)
             (get_str candidate ''confidence'' (confidence existing)) CONFIDENCE_RANK,
           line := merge_line (line existing) (get_or candidate ''line'' JNull),
           summary :=
             (if length new_summary > length (summary existing) then new_summary
              else summary existing),
           evidence := merge_evidence (evidence existing) (get_str candidate ''evidence'' []),
           recommended_fix :=
             (if new_fix \<noteq> [] \<and> new_fix \<noteq> old_fix \<and> length new_fix > length old_fix
              then new_fix else old_fix),
           status :=
             (if new_status \<noteq> status existing
              then (if status existing = ''open'' \<or> new_status = ''open'' then ''open''
                    else status existing)
              else status existing),
           needs_validation := (needs_validation existing \<or> new_needs_validation \<or> cs \<noteq> []),
           conflict_note :=
             (if cs \<noteq> []
              then (if merged_note \<noteq> []
                    then strip (strip_chars ''; '' (merged_note @ ''; '' @ detail))
                    else detail)
              else merged_note),
           sources := sources existing @ [py_str (get_or candidate ''_source'' (JStr []))] \<rparr>)"

section \<open>The fold over the loaded records\<close>

text \<open>
  \<^verbatim>\<open>buckets\<close> is a \<^verbatim>\<open>dict\<close>, which keeps its keys in insertion order: an association list
  with distinct keys, \<^const>\<open>AList.update\<close> being the assignment \<^verbatim>\<open>buckets[key] = v\<close>.
\<close>

definition fold_step :: "(string \<times> merged) list \<Rightarrow> finding \<Rightarrow> (string \<times> merged) list" where
  \<comment> \<open>one round of the loop of \<^verbatim>\<open>main\<close> over \<^verbatim>\<open>loaded\<close>\<close>
  "fold_step buckets record =
     (let key = normalized_fingerprint record
      in case map_of buckets key of
           None \<Rightarrow> AList.update key (initial_record record) buckets
         | Some existing \<Rightarrow> AList.update key (merge_record existing record) buckets)"

definition merge_all :: "finding list \<Rightarrow> (string \<times> merged) list" where
  "merge_all loaded = foldl fold_step [] loaded"

section \<open>Floating point\<close>

text \<open>
  A finite \<^verbatim>\<open>float\<close> is modelled by the rational number it denotes.  A float operation is the
  exact operation followed by \<open>to_double\<close>, rounding to the nearest number with a significand of
  53 bits, ties to even; the range of the exponent is taken as unbounded.

  The builtin \<^verbatim>\<open>sum\<close> starts from the integer 0.  Before CPython 3.12 it adds its items from left
  to right (\<open>Plain\<close>).  From CPython 3.12 on it adds floats by Neumaier's compensated summation
  (\<open>Compensated\<close>): the first float is added to the integer 0, giving the running sum \<^verbatim>\<open>f\<close>, and
  for every further item \<^verbatim>\<open>x\<close> it computes \<^verbatim>\<open>t = f + x\<close>, adds \<^verbatim>\<open>(f - t) + x\<close> to the compensation
  \<^verbatim>\<open>c\<close> if \<^verbatim>\<open>fabs(f) >= fabs(x)\<close> and \<^verbatim>\<open>(x - t) + f\<close> otherwise, and continues with \<^verbatim>\<open>f = t\<close>; at
  the end \<^verbatim>\<open>c\<close> is added to \<^verbatim>\<open>f\<close> unless it is zero.  The scores depend on which of the two the
  interpreter runs, so the algorithm is a parameter of \<open>py_sum\<close> and of all that calls it.
\<close>

definition expo :: "rat \<Rightarrow> int" where
  \<comment> \<open>the binary exponent of \<open>x \<noteq> 0\<close>: \<open>2 powi expo x \<le> \<bar>x\<bar> < 2 powi (expo x + 1)\<close>\<close>
  "expo x =
     (let d = bitlen (fst (quotient_of \<bar>x\<bar>)) - bitlen (snd (quotient_of \<bar>x\<bar>))
      in if 2 powi d \<le> \<bar>x\<bar> then d else d - 1)"

definition round_half_even :: "rat \<Rightarrow> int" where
  "round_half_even x =
     (let f = \<lfloor>x\<rfloor>; r = x - of_int f
      in if r < 1 / 2 then f else if 1 / 2 < r then f + 1 else if even f then f else f + 1)"

definition to_double :: "rat \<Rightarrow> rat" where
  "to_double x =
     (if x = 0 then 0
      else let u = 2 powi (expo x - 52) in of_int (round_half_even (x / u)) * u)"

definition fmul :: "rat \<Rightarrow> rat \<Rightarrow> rat" where
  "fmul a b = to_double (a * b)"

definition fadd :: "rat \<Rightarrow> rat \<Rightarrow> rat" where
  "fadd a b = to_double (a + b)"

definition fsub :: "rat \<Rightarrow> rat \<Rightarrow> rat" where
  "fsub a b = to_double (a - b)"

datatype summation = Plain | Compensated

fun neumaier :: "rat \<Rightarrow> rat \<Rightarrow> rat list \<Rightarrow> rat" where
  "neumaier f c [] = (if c \<noteq> 0 then fadd f c else f)"
| "neumaier f c (x # xs) =
     (let t = fadd f x;
          c' = (if \<bar>x\<bar> \<le> \<bar>f\<bar> then fadd c (fadd (fsub f t) x) else fadd c (fadd (fsub x t) f))
      in neumaier t c' xs)"

definition py_sum :: "summation \<Rightarrow> rat list \<Rightarrow> rat" where
  \<comment> \<open>\<^verbatim>\<open>sum(xs)\<close> for a sequence of floats\<close>
  "py_sum alg xs =
     (case alg of
        Plain \<Rightarrow> foldl fadd 0 xs
      | Compensated \<Rightarrow> (case xs of [] \<Rightarrow> 0 | x # ys \<Rightarrow> neumaier (fadd 0 x) 0 ys))"

definition round2 :: "rat \<Rightarrow> rat" where
  \<comment> \<open>\<^verbatim>\<open>round(x, 2)\<close>: the decimal with two places nearest to \<open>x\<close>, ties to even, as a float\<close>
  "round2 x = to_double (of_int (round_half_even (x * 100)) / 100)"

section \<open>Scoring\<close>

definition SEVERITY_MULTIPLIER :: "(string \<times> rat) list" where
  "SEVERITY_MULTIPLIER =
     [(''high'', 1), (''med'', to_double (6 / 10)), (''low'', to_double (3 / 10))]"

definition CONFIDENCE_MULTIPLIER :: "(string \<times> rat) list" where
  "CONFIDENCE_MULTIPLIER = [(''high'', 1), (''med'', 3 / 4), (''low'', 1 / 2)]"

definition penalty :: "merged \<Rightarrow> rat" where
  "penalty record =
     fmul
       (fmul (of_int (dict_get TIER_WEIGHT (tier record) 1))
          (dict_get SEVERITY_MULTIPLIER (severity record) (to_double (3 / 10))))
       (dict_get CONFIDENCE_MULTIPLIER (confidence record) (1 / 2))"

record scores =
  overall_score :: rat
  strict_score :: rat

definition score :: "summation \<Rightarrow> merged list \<Rightarrow> scores" where
  "score alg records =
     (let strict_penalty = py_sum alg (map penalty records);
          open_penalty = py_sum alg (map penalty (filter (\<lambda>r. status r = ''open'') records));
          wontfix_penalty =
            py_sum alg (map penalty (filter (\<lambda>r. status r = ''wontfix'') records));
          strict = max 0 (min 100 (fsub 100 strict_penalty));
          overall = max 0 (min 100 (fsub 100 (fadd open_penalty (fmul (1 / 2) wontfix_penalty))))
      in \<lparr> overall_score = round2 overall, strict_score = round2 strict \<rparr>)"

section \<open>Ranking and the report\<close>

definition priority_sort_key :: "merged \<Rightarrow> int \<times> int \<times> int \<times> rat \<times> string \<times> int" where
  "priority_sort_key record =
     (- dict_get TIER_WEIGHT (tier record) 1,
      - dict_get SEVERITY_RANK (severity record) 1,
      - dict_get CONFIDENCE_RANK (confidence record) 1,
      - penalty record,
      file_path record,
      (case as_int (line record) of Some i \<Rightarrow> i | None \<Rightarrow> 10 ^ 9))"

definition display_id :: "nat \<Rightarrow> string" where
  \<comment> \<open>\<^verbatim>\<open>f"F{idx:03d}"\<close>\<close>
  "display_id idx = CHR ''F'' # replicate (3 - length (digits idx)) CHR ''0'' @ digits idx"

definition assign_ids :: "merged list \<Rightarrow> merged list" where
  \<comment> \<open>the loop \<^verbatim>\<open>for idx, record in enumerate(merged, start=1)\<close>\<close>
  "assign_ids ms = map (\<lambda>(idx, record). record\<lparr>fid := display_id idx\<rparr>) (enumerate 1 ms)"

record plan =
  quick_wins :: "string list"
  refactors :: "string list"

definition plan_step :: "plan \<Rightarrow> merged \<Rightarrow> plan" where
  \<comment> \<open>one round of the loop of \<^verbatim>\<open>remediation_plan\<close>\<close>
  "plan_step p record =
     (let item = fid record @ '': '' @ summary record
      in if tier record \<in> {''T3'', ''T4''}
            \<or> detector record \<in> {''naming_consistency'', ''debug_logging_leftovers''}
         then p\<lparr>quick_wins := quick_wins p @ [item]\<rparr>
         else p\<lparr>refactors := refactors p @ [item]\<rparr>)"

definition remediation_plan :: "merged list \<Rightarrow> plan" where
  "remediation_plan records = foldl plan_step \<lparr> quick_wins = [], refactors = [] \<rparr> records"

section \<open>Loading and the whole run\<close>

definition records_of :: "json \<Rightarrow> json list option" where
  \<comment> \<open>the \<^verbatim>\<open>records\<close> of one payload in \<^verbatim>\<open>load_findings\<close>; \<open>None\<close> is its \<^verbatim>\<open>continue\<close>\<close>
  "records_of payload =
     (case payload of
        JObj kvs \<Rightarrow> (case map_of kvs ''findings'' of Some (JArr xs) \<Rightarrow> Some xs | _ \<Rightarrow> None)
      | JArr xs \<Rightarrow> Some xs
      | _ \<Rightarrow> None)"

definition tag_records :: "string \<Rightarrow> json list \<Rightarrow> finding list" where
  \<comment> \<open>the inner loop of \<^verbatim>\<open>load_findings\<close>: every \<^verbatim>\<open>dict\<close> of \<^verbatim>\<open>records\<close>, tagged with its path\<close>
  "tag_records path rs =
     concat (map (\<lambda>r. case r of JObj kvs \<Rightarrow> [AList.update ''_source'' (JStr path) kvs]
                            | _ \<Rightarrow> []) rs)"

fun load_findings :: "(string \<times> json) list \<Rightarrow> finding list" where
  \<comment> \<open>the files are given as the pairs of a path and the JSON value parsed from its text\<close>
  "load_findings [] = []"
| "load_findings ((path, payload) # paths) =
     (case records_of payload of
        None \<Rightarrow> load_findings paths
      | Some rs \<Rightarrow> tag_records path rs @ load_findings paths)"

record report =
  total_findings :: nat
  findings :: "merged list"
  report_scores :: scores  \<comment> \<open>the key \<^verbatim>\<open>scores\<close>\<close>
  next_ids :: "string list"  \<comment> \<open>the key \<^verbatim>\<open>next\<close>\<close>
  report_plan :: plan  \<comment> \<open>the key \<^verbatim>\<open>plan\<close>\<close>

definition build_report :: "summation \<Rightarrow> finding list \<Rightarrow> report" where
  \<comment> \<open>\<^verbatim>\<open>main\<close> from \<^verbatim>\<open>loaded\<close> on; the entries \<^verbatim>\<open>breakdown\<close> and \<^verbatim>\<open>resolve_simulation\<close> of the
      report are left out\<close>
  "build_report alg loaded =
     (let merged = assign_ids (sort_key priority_sort_key (map snd (merge_all loaded)));
          top_open = take 10 (filter (\<lambda>r. status r = ''open'') merged)
      in \<lparr> total_findings = length merged,
           findings = merged,
           report_scores = score alg merged,
           next_ids = map fid top_open,
           report_plan = remediation_plan top_open \<rparr>)"

datatype error = No_JSON_files

definition main :: "summation \<Rightarrow> (string \<times> json) list \<Rightarrow> error + report" where
  \<comment> \<open>\<^verbatim>\<open>main\<close> from the list \<^verbatim>\<open>files\<close> on, each file with the JSON value it holds\<close>
  "main alg files =
     (if files = [] then Inl No_JSON_files else Inr (build_report alg (load_findings files)))"

section \<open>Notions used to state the properties\<close>

text \<open>
  The weight tables in the words of the specification, with its decimals as exact numbers.
\<close>

definition tierWeight :: "string \<Rightarrow> rat option" where
  "tierWeight = map_of [(''T1'', 20), (''T2'', 10), (''T3'', 4), (''T4'', 1)]"

definition severityMultiplier :: "string \<Rightarrow> rat option" where
  "severityMultiplier = map_of [(''high'', 1), (''med'', 6 / 10), (''low'', 3 / 10)]"

definition confidenceMultiplier :: "string \<Rightarrow> rat option" where
  "confidenceMultiplier = map_of [(''high'', 1), (''med'', 75 / 100), (''low'', 5 / 10)]"

definition scenario_A :: finding where
  \<comment> \<open>the record of the specification's scenario A\<close>
  "scenario_A =
     [(''detector'', JStr ''dead_unused_code''), (''tier'', JStr ''T1''),
      (''severity'', JStr ''high''), (''confidence'', JStr ''high''), (''file'', JStr ''a.go''),
      (''line'', JInt 10), (''summary'', JStr ''unused func''), (''status'', JStr ''open'')]"

text \<open>
  The penalty and the scores in the words of the specification: products, sums and differences
  of exact numbers, the result clamped and then rounded to two decimals (ties to even, as
  \<^verbatim>\<open>round\<close> does).  A value outside a table has the weakest weight of the table.
\<close>

definition exact_penalty :: "merged \<Rightarrow> rat" where
  "exact_penalty m =
     (case tierWeight (tier m) of None \<Rightarrow> 1 | Some w \<Rightarrow> w)
     * (case severityMultiplier (severity m) of None \<Rightarrow> 3 / 10 | Some s \<Rightarrow> s)
     * (case confidenceMultiplier (confidence m) of None \<Rightarrow> 5 / 10 | Some c \<Rightarrow> c)"

definition round_2_decimals :: "rat \<Rightarrow> rat" where
  "round_2_decimals x = of_int (round_half_even (x * 100)) / 100"

definition exact_strict_value :: "merged list \<Rightarrow> rat" where
  \<comment> \<open>the strict score before it is rounded\<close>
  "exact_strict_value records = max 0 (min 100 (100 - sum_list (map exact_penalty records)))"

definition exact_overall_value :: "merged list \<Rightarrow> rat" where
  \<comment> \<open>the overall score before it is rounded\<close>
  "exact_overall_value records =
     max 0 (min 100 (100 -
       (sum_list (map exact_penalty (filter (\<lambda>r. status r = ''open'') records))
        + (5 / 10) * sum_list (map exact_penalty (filter (\<lambda>r. status r = ''wontfix'') records)))))"

definition exact_strict_score :: "merged list \<Rightarrow> rat" where
  "exact_strict_score records = round_2_decimals (exact_strict_value records)"

definition exact_overall_score :: "merged list \<Rightarrow> rat" where
  "exact_overall_score records = round_2_decimals (exact_overall_value records)"

text \<open>
  Two records whose exact penalties, 1.8 and 0.225, leave the exact strict score at the tie
  97.975, and four records on which the two summation algorithms give different sums.
\<close>

definition tie_A :: finding where
  "tie_A =
     [(''detector'', JStr ''complexity_size''), (''tier'', JStr ''T3''),
      (''severity'', JStr ''med''), (''confidence'', JStr ''med''), (''file'', JStr ''src/a.py''),
      (''line'', JInt 3), (''summary'', JStr ''long function''), (''status'', JStr ''open'')]"

definition tie_B :: finding where
  "tie_B =
     [(''detector'', JStr ''naming_consistency''), (''tier'', JStr ''T4''),
      (''severity'', JStr ''low''), (''confidence'', JStr ''med''), (''file'', JStr ''src/b.py''),
      (''line'', JInt 8), (''summary'', JStr ''mixed case names''), (''status'', JStr ''open'')]"

definition four_records :: "finding list" where
  "four_records =
     [scenario_A,
      [(''detector'', JStr ''duplication''), (''tier'', JStr ''T1''), (''severity'', JStr ''high''),
       (''confidence'', JStr ''high''), (''file'', JStr ''b.go''), (''line'', JInt 4),
       (''summary'', JStr ''copied block''), (''status'', JStr ''open'')],
      [(''detector'', JStr ''complexity_size''), (''tier'', JStr ''T3''),
       (''severity'', JStr ''low''), (''confidence'', JStr ''high''), (''file'', JStr ''c.go''),
       (''line'', JInt 7), (''summary'', JStr ''long function''), (''status'', JStr ''open'')],
      [(''detector'', JStr ''naming_consistency''), (''tier'', JStr ''T4''),
       (''severity'', JStr ''low''), (''confidence'', JStr ''med''), (''file'', JStr ''d.go''),
       (''line'', JInt 9), (''summary'', JStr ''mixed case names''), (''status'', JStr ''open'')]]"

definition fold_bucket :: "finding list \<Rightarrow> merged option" where
  \<comment> \<open>the merged finding of the records of one bucket, in the order they are loaded: the
      first seeds it, the others are folded in\<close>
  "fold_bucket rs =
     (case rs of [] \<Rightarrow> None | r # cs \<Rightarrow> Some (foldl merge_record (initial_record r) cs))"

definition read_rank :: "(string \<times> int) list \<Rightarrow> string \<Rightarrow> string \<Rightarrow> finding \<Rightarrow> int" where
  \<comment> \<open>the rank of a field of the record \<open>x\<close>, read as \<^verbatim>\<open>initial_record\<close> reads it: \<^verbatim>\<open>str\<close>, then
      \<^verbatim>\<open>strip\<close>, and the default of the field when the record lacks it\<close>
  "read_rank rank field dflt x = dict_get rank (get_str x field dflt) 0"

text \<open>Records with one fingerprint, for the scenarios B and C of the specification.\<close>

definition scenario_B1 :: finding where
  "scenario_B1 =
     [(''detector'', JStr ''duplication''), (''tier'', JStr ''T2''), (''severity'', JStr ''med''),
      (''confidence'', JStr ''med''), (''file'', JStr ''src/a.py''), (''line'', JInt 12),
      (''summary'', JStr ''Copy of parse loop''), (''status'', JStr ''open'')]"

definition scenario_B2 :: finding where
  "scenario_B2 =
     [(''detector'', JStr ''duplication''), (''tier'', JStr ''T1''), (''severity'', JStr ''med''),
      (''confidence'', JStr ''med''), (''file'', JStr ''src/a.py''), (''line'', JInt 12),
      (''summary'', JStr ''copy of parse-loop''), (''status'', JStr ''open'')]"

definition scenario_C1 :: finding where
  "scenario_C1 =
     [(''detector'', JStr ''duplication''), (''tier'', JStr ''T2''), (''file'', JStr ''src/a.py''),
      (''summary'', JStr ''copy of parse loop''), (''status'', JStr ''fixed'')]"

definition scenario_C2 :: finding where
  "scenario_C2 =
     [(''detector'', JStr ''duplication''), (''tier'', JStr ''T2''), (''file'', JStr ''src/a.py''),
      (''summary'', JStr ''copy of parse loop''), (''status'', JStr ''open'')]"

definition odd_values :: finding where
  \<comment> \<open>a record whose tier, severity and confidence are outside the tables\<close>
  "odd_values =
     [(''detector'', JStr ''duplication''), (''tier'', JStr ''T9''),
      (''severity'', JStr ''critical''), (''confidence'', JInt 3), (''file'', JStr ''src/a.py''),
      (''summary'', JStr ''copy of parse loop'')]"

definition bare_record :: finding where
  \<comment> \<open>a record with the fingerprint of \<open>odd_values\<close> and without tier, severity and confidence\<close>
  "bare_record =
     [(''detector'', JStr ''duplication''), (''file'', JStr ''src/a.py''),
      (''summary'', JStr ''copy of parse loop'')]"

definition carried :: "finding \<Rightarrow> string \<Rightarrow> string option" where
  \<comment> \<open>the value that a record carries in a field, read as the code reads it (\<^verbatim>\<open>str\<close>, then
      \<^verbatim>\<open>strip\<close>); \<open>None\<close> when the record has no such field\<close>
  "carried x field = map_option (\<lambda>v. strip (py_str v)) (map_of x field)"










text \<open>Two records with one fingerprint, the first with the line 0.\<close>

definition line_first :: finding where
  "line_first =
     [(''detector'', JStr ''duplication''), (''file'', JStr ''src/a.py''), (''line'', JInt 0),
      (''summary'', JStr ''copy of parse loop'')]"

definition line_second :: finding where
  "line_second =
     [(''detector'', JStr ''duplication''), (''file'', JStr ''src/a.py''), (''line'', JInt 5),
      (''summary'', JStr ''copy of parse loop'')]"

definition quick_win :: "merged \<Rightarrow> bool" where
  \<comment> \<open>a record of the weakest tiers, or of a cosmetic detector\<close>
  "quick_win r =
     (tier r = ''T3'' \<or> tier r = ''T4'' \<or> detector r = ''naming_consistency''
      \<or> detector r = ''debug_logging_leftovers'')"

definition plan_item :: "merged \<Rightarrow> string" where
  \<comment> \<open>the string \<^verbatim>\<open>id: summary\<close> of a record\<close>
  "plan_item r = fid r @ '': '' @ summary r"


definition rank_fields :: "merged \<Rightarrow> string \<times> string \<times> string" where
  \<comment> \<open>the three rank-based fields of a merged finding\<close>
  "rank_fields m = (tier m, severity m, confidence m)"




section \<open>Facts about the reconciliation of one record\<close>

lemma stronger_rank:
  "dict_get rank (stronger current candidate rank) 0
     = max (dict_get rank current 0) (dict_get rank candidate 0)"
  by (simp add: stronger_def)



lemma tier_merge_record:
  "tier (merge_record e c) = stronger (tier e) (get_str c ''tier'' (tier e)) TIER_RANK"
  by (simp add: merge_record_def Let_def)

lemma severity_merge_record:
  "severity (merge_record e c)
     = stronger (severity e) (get_str c ''severity'' (severity e)) SEVERITY_RANK"
  by (simp add: merge_record_def Let_def)

lemma confidence_merge_record:
  "confidence (merge_record e c)
     = stronger (confidence e) (get_str c ''confidence'' (confidence e)) CONFIDENCE_RANK"
  by (simp add: merge_record_def Let_def)

lemma status_merge_record:
  "status (merge_record e c) =
     (if get_str c ''status'' ''open'' \<noteq> status e
      then (if status e = ''open'' \<or> get_str c ''status'' ''open'' = ''open'' then ''open''
            else status e)
      else status e)"
  by (simp add: merge_record_def Let_def)

lemma needs_validation_merge_record:
  "needs_validation (merge_record e c) =
     (needs_validation e \<or> py_bool (get_or c ''needs_validation'' (JBool False))
      \<or> conflicts e c \<noteq> [])"
  by (simp add: merge_record_def Let_def)




lemma rank_keys:
  "set (map fst TIER_RANK) = {''T1'', ''T2'', ''T3'', ''T4''}"
  "set (map fst SEVERITY_RANK) = {''high'', ''med'', ''low''}"
  "set (map fst CONFIDENCE_RANK) = {''high'', ''med'', ''low''}"
  by (auto simp add: TIER_RANK_def SEVERITY_RANK_def CONFIDENCE_RANK_def)







lemma conflicts_status:
  "get_str c ''status'' ''open'' \<noteq> status e \<Longrightarrow>
   ''status: '' @ status e @ '' vs '' @ get_str c ''status'' ''open'' \<in> set (conflicts e c)"
  by (simp add: conflicts_def rank_conflict_def Let_def)

lemma conflicts_fix:
  "get_str c ''recommended_fix'' [] \<noteq> [] \<Longrightarrow>
   get_str c ''recommended_fix'' [] \<noteq> recommended_fix e \<Longrightarrow>
   ''recommended_fix differs'' \<in> set (conflicts e c)"
  by (simp add: conflicts_def rank_conflict_def Let_def)


section \<open>Facts about rounding\<close>

lemma rhe_of_int: "round_half_even (of_int n) = n"
  by (simp add: round_half_even_def)

lemma rhe_cases: "round_half_even x = \<lfloor>x\<rfloor> \<or> (round_half_even x = \<lfloor>x\<rfloor> + 1 \<and> of_int \<lfloor>x\<rfloor> < x)"
  by (auto simp add: round_half_even_def Let_def)

lemma rhe_le: "x \<le> of_int n \<Longrightarrow> round_half_even x \<le> n"
proof -
  assume le: "x \<le> of_int n"
  then have fl: "\<lfloor>x\<rfloor> \<le> n" by (simp add: floor_le_iff) 
  from rhe_cases [of x] show ?thesis
  proof
    assume "round_half_even x = \<lfloor>x\<rfloor>" with fl show ?thesis by simp
  next
    assume a: "round_half_even x = \<lfloor>x\<rfloor> + 1 \<and> of_int \<lfloor>x\<rfloor> < x"
    then have "of_int \<lfloor>x\<rfloor> < (of_int n :: rat)" using le by linarith
    then have "\<lfloor>x\<rfloor> < n" by simp
    with a show ?thesis by simp
  qed
qed

lemma rhe_ge: "of_int n \<le> x \<Longrightarrow> n \<le> round_half_even x"
proof -
  assume "of_int n \<le> x"
  then have "n \<le> \<lfloor>x\<rfloor>" by (simp add: le_floor_iff)
  with rhe_cases [of x] show ?thesis by auto
qed

lemma rhe_unfold:
  "round_half_even x =
     (if x - of_int \<lfloor>x\<rfloor> < 1 / 2 then \<lfloor>x\<rfloor>
      else if 1 / 2 < x - of_int \<lfloor>x\<rfloor> then \<lfloor>x\<rfloor> + 1
      else if even \<lfloor>x\<rfloor> then \<lfloor>x\<rfloor> else \<lfloor>x\<rfloor> + 1)"
  by (simp add: round_half_even_def Let_def)

lemma rhe_nearest: "\<bar>x - of_int (round_half_even x)\<bar> \<le> 1 / 2"
proof -
  define n where "n = \<lfloor>x\<rfloor>"
  have f: "of_int n \<le> x" "x < of_int n + 1"
    unfolding n_def by linarith+
  have r: "round_half_even x = n \<and> x - of_int n \<le> 1 / 2
      \<or> round_half_even x = n + 1 \<and> 1 / 2 \<le> x - of_int n"
    unfolding rhe_unfold n_def [symmetric] by auto
  then show ?thesis
    using f by (auto simp add: abs_if)
qed

lemma rhe_nearest_int: "\<bar>x - of_int (round_half_even x)\<bar> \<le> \<bar>x - of_int n\<bar>"
proof (cases "n = round_half_even x")
  case True
  then show ?thesis by simp
next
  case False
  then have "1 \<le> \<bar>n - round_half_even x\<bar>" by simp
  then have "(of_int 1 :: rat) \<le> of_int \<bar>n - round_half_even x\<bar>"
    by (simp only: of_int_le_iff)
  then have "1 \<le> \<bar>(of_int n :: rat) - of_int (round_half_even x)\<bar>" by simp
  with rhe_nearest [of x] show ?thesis by linarith
qed

lemma rhe_tie_even:
  "\<bar>x - of_int (round_half_even x)\<bar> = 1 / 2 \<Longrightarrow> even (round_half_even x)"
proof -
  assume t: "\<bar>x - of_int (round_half_even x)\<bar> = 1 / 2"
  define n where "n = \<lfloor>x\<rfloor>"
  have f: "of_int n \<le> x" "x < of_int n + 1"
    unfolding n_def by linarith+
  have r: "round_half_even x = n \<and> x - of_int n < 1 / 2
      \<or> round_half_even x = n + 1 \<and> 1 / 2 < x - of_int n
      \<or> even (round_half_even x)"
    unfolding rhe_unfold n_def [symmetric] by auto
  then consider (lo) "round_half_even x = n" "x - of_int n < 1 / 2"
    | (hi) "round_half_even x = n + 1" "1 / 2 < x - of_int n"
    | (tie) "even (round_half_even x)"
    by blast
  then show ?thesis
  proof cases
    case lo
    have "\<bar>x - of_int n\<bar> = 1 / 2"
      using t by (simp only: lo(1))
    with f lo(2) have False by linarith
    then show ?thesis ..
  next
    case hi
    have "\<bar>x - (of_int n + 1)\<bar> = 1 / 2"
      using t by (simp add: hi(1))
    with f hi(2) have False by linarith
    then show ?thesis ..
  next
    case tie
    then show ?thesis .
  qed
qed

lemma expo_le:
  assumes "0 < x"
  shows "2 powi (expo x) \<le> x"
proof -
  define p where "p = fst (quotient_of x)"
  define q where "q = snd (quotient_of x)"
  have x: "x = of_int p / of_int q"
    by (simp add: p_def q_def quotient_of_div)
  have q: "0 < q"
    by (simp add: q_def quotient_of_denom_pos')
  have p: "0 < p"
    using assms q by (simp add: x zero_less_divide_iff)
  define d where "d = bitlen p - bitlen q"
  have abs: "\<bar>x\<bar> = x" using assms by simp
  have e: "expo x = (if 2 powi d \<le> x then d else d - 1)"
    by (simp add: expo_def abs d_def p_def q_def Let_def)
  have "2 powi (d - 1) \<le> x"
  proof -
    have bp: "1 \<le> bitlen p" and bq: "1 \<le> bitlen q"
      using p q by (simp_all add: bitlen_alt_def)
    have lo: "2 ^ nat (bitlen p - 1) \<le> p" and hi: "q < 2 ^ nat (bitlen q)"
      using bitlen_bounds [OF p] bitlen_bounds [OF q] by simp_all
    have lo': "(2::rat) ^ nat (bitlen p - 1) \<le> of_int p"
      using lo by (metis of_int_le_iff of_int_numeral of_int_power)
    have hi': "of_int q \<le> (2::rat) ^ nat (bitlen q)"
      using hi by (metis less_imp_le of_int_le_iff of_int_numeral of_int_power)
    define a where "a = nat (bitlen p - 1)"
    define b where "b = nat (bitlen q)"
    have "d - 1 = int a - int b"
      using bp bq by (simp add: d_def a_def b_def)
    moreover have "(2::rat) powi (int a - int b) = 2 powi (int a) / 2 powi (int b)"
      by (rule power_int_diff) simp
    ultimately have "(2::rat) powi (d - 1) = 2 ^ nat (bitlen p - 1) / 2 ^ nat (bitlen q)"
      by (simp only: power_int_of_nat a_def b_def)
    also have "\<dots> \<le> of_int p / of_int q"
      using lo' hi' q p by (intro frac_le) simp_all
    finally show ?thesis by (simp add: x)
  qed
  then show ?thesis by (simp add: e)
qed

lemma expo_le_6:
  assumes "0 < x" "x \<le> 100"
  shows "expo x \<le> 6"
proof -
  have "(2::rat) powi (expo x) \<le> 100"
    using expo_le [OF assms(1)] assms(2) by simp
  also have "\<dots> < 2 powi 7" by simp
  finally have "expo x < 7"
    by (rule power_int_le_imp_less_exp [rotated]) simp_all
  then show ?thesis by simp
qed

lemma to_double_nonneg: "0 \<le> x \<Longrightarrow> 0 \<le> to_double x"
proof -
  assume x: "0 \<le> x"
  have "0 \<le> round_half_even (x / 2 powi (expo x - 52))"
    by (rule rhe_ge) (simp add: x)
  then show ?thesis
    by (simp add: to_double_def Let_def)
qed

lemma to_double_le_100:
  assumes "x \<le> 100"
  shows "to_double x \<le> 100"
proof (cases "0 < x")
  case False
  then have "x / 2 powi (expo x - 52) \<le> of_int 0"
    by (simp add: divide_le_0_iff)
  then have "round_half_even (x / 2 powi (expo x - 52)) \<le> 0"
    by (rule rhe_le)
  then have "of_int (round_half_even (x / 2 powi (expo x - 52))) * 2 powi (expo x - 52) \<le> (0::rat)"
    by (simp add: mult_le_0_iff)
  then show ?thesis
    by (simp add: to_double_def Let_def)
next
  case True
  define k where "k = nat (52 - expo x)"
  have e: "expo x - 52 = - int k"
    using expo_le_6 [OF True assms] by (simp add: k_def)
  have u: "(2::rat) powi (expo x - 52) = 1 / 2 ^ k"
    by (simp add: e power_int_minus_divide del: of_nat_nat)
  have "x / 2 powi (expo x - 52) \<le> of_int (100 * 2 ^ k)"
    using assms by (simp add: u)
  then have "round_half_even (x / 2 powi (expo x - 52)) \<le> 100 * 2 ^ k"
    by (rule rhe_le)
  then have "(of_int (round_half_even (x / 2 powi (expo x - 52))) :: rat) \<le> of_int (100 * 2 ^ k)"
    by (simp only: of_int_le_iff)
  then have "of_int (round_half_even (x / 2 powi (expo x - 52))) / 2 ^ k \<le> (100::rat)"
    by (simp add: divide_le_eq)
  then show ?thesis
    using True by (simp add: to_double_def Let_def u)
qed

lemma round2_bounds:
  assumes "0 \<le> x" "x \<le> 100"
  shows "0 \<le> round2 x \<and> round2 x \<le> 100"
proof -
  have "of_int 0 \<le> x * 100" using assms by simp
  then have lo: "0 \<le> round_half_even (x * 100)" by (rule rhe_ge)
  have "x * 100 \<le> of_int 10000" using assms by simp
  then have hi: "round_half_even (x * 100) \<le> 10000" by (rule rhe_le)
  have "(of_int (round_half_even (x * 100)) :: rat) \<le> of_int 10000"
    using hi by (simp only: of_int_le_iff)
  then have "of_int (round_half_even (x * 100)) / 100 \<le> (100::rat)" by simp
  moreover have "0 \<le> (of_int (round_half_even (x * 100)) :: rat) / 100" using lo by simp
  ultimately show ?thesis
    by (simp add: round2_def to_double_nonneg to_double_le_100)
qed

section \<open>Facts about scoring\<close>

lemma to_double_values:
  "to_double 0 = 0" "to_double 1 = 1" "to_double 20 = 20" "to_double 80 = 80" "round2 80 = 80"
  "to_double (3 / 4) = 3 / 4" "to_double (1 / 2) = 1 / 2" "to_double 10 = 10" "to_double 4 = 4"
  by code_simp+

lemma penalty_tables:
  assumes "tierWeight (tier record) = Some w"
    and "severityMultiplier (severity record) = Some s"
    and "confidenceMultiplier (confidence record) = Some c"
  shows "penalty record = fmul (fmul w (to_double s)) (to_double c)"
proof -
  have w: "w = the (tierWeight (tier record))"
    and s: "s = the (severityMultiplier (severity record))"
    and c: "c = the (confidenceMultiplier (confidence record))"
    using assms by simp_all
  have tw: "tier record \<in> {''T1'', ''T2'', ''T3'', ''T4''}"
    using assms(1) by (auto simp add: tierWeight_def split: if_splits)
  have sv: "severity record \<in> {''high'', ''med'', ''low''}"
    using assms(2) by (auto simp add: severityMultiplier_def split: if_splits)
  have cf: "confidence record \<in> {''high'', ''med'', ''low''}"
    using assms(3) by (auto simp add: confidenceMultiplier_def split: if_splits)
  have 1: "of_int (dict_get TIER_WEIGHT (tier record) 1) = w"
    using tw by (auto simp add: w tierWeight_def TIER_WEIGHT_def dict_get_def)
  have 2: "dict_get SEVERITY_MULTIPLIER (severity record) (to_double (3 / 10)) = to_double s"
    using sv
    by (auto simp add: s severityMultiplier_def SEVERITY_MULTIPLIER_def dict_get_def
        to_double_values)
  have 3: "dict_get CONFIDENCE_MULTIPLIER (confidence record) (1 / 2) = to_double c"
    using cf
    by (auto simp add: c confidenceMultiplier_def CONFIDENCE_MULTIPLIER_def dict_get_def
        to_double_values)
  show ?thesis
    by (simp add: penalty_def 1 2 3)
qed

lemma display_id_1: "display_id (Suc 0) = ''F001''"
  by code_simp

lemma clamp_bounds: "0 \<le> max 0 (min 100 (x::rat)) \<and> max 0 (min 100 x) \<le> 100"
  by simp

lemma penalty_fid: "penalty (r\<lparr>fid := x\<rparr>) = penalty r"
  by (simp add: penalty_def)

lemma penalty_assign_ids: "map penalty (assign_ids ms) = map penalty ms"
proof -
  have "map penalty (assign_ids ms) = map (\<lambda>p. penalty (snd p)) (enumerate 1 ms)"
    by (simp add: assign_ids_def penalty_fid case_prod_unfold)
  also have "\<dots> = map penalty (map snd (enumerate 1 ms))"
    by (simp only: map_map comp_def)
  also have "\<dots> = map penalty ms"
    by (simp only: map_snd_enumerate)
  finally show ?thesis .
qed

lemma py_sum_single: "py_sum alg [] = 0" "py_sum alg [x] = to_double x"
  by (cases alg; simp add: py_sum_def fadd_def)+

lemma score_bounds:
  "0 \<le> strict_score (score alg records) \<and> strict_score (score alg records) \<le> 100
   \<and> 0 \<le> overall_score (score alg records) \<and> overall_score (score alg records) \<le> 100"
  using round2_bounds [OF clamp_bounds [THEN conjunct1] clamp_bounds [THEN conjunct2]]
  by (simp add: score_def Let_def)

lemma merge_all_single: "merge_all [r] = [(normalized_fingerprint r, initial_record r)]"
  by (simp add: merge_all_def fold_step_def)

lemma penalty_T1_high_high:
  "tier m = ''T1'' \<Longrightarrow> severity m = ''high'' \<Longrightarrow> confidence m = ''high'' \<Longrightarrow> penalty m = 20"
  by (simp add: penalty_def dict_get_def TIER_WEIGHT_def SEVERITY_MULTIPLIER_def
      CONFIDENCE_MULTIPLIER_def fmul_def to_double_values)

lemma score_single_open:
  "penalty m = 20 \<Longrightarrow> status m = ''open'' \<Longrightarrow>
   score alg [m] = \<lparr> overall_score = 80, strict_score = 80 \<rparr>"
  by (simp add: score_def py_sum_single fadd_def fsub_def fmul_def to_double_values)

lemma build_report_single:
  "build_report alg [r] =
     (let m = (initial_record r)\<lparr>fid := ''F001''\<rparr>;
          top_open = (if status m = ''open'' then [m] else [])
      in \<lparr> total_findings = 1, findings = [m], report_scores = score alg [m],
           next_ids = map fid top_open, report_plan = remediation_plan top_open \<rparr>)"
  by (simp add: build_report_def merge_all_single assign_ids_def enumerate_eq_zip display_id_1
      Let_def)

lemma strict_score_build_report:
  "strict_score (report_scores (build_report alg loaded))
     = strict_score (score alg (sort_key priority_sort_key (map snd (merge_all loaded))))"
  by (simp add: build_report_def score_def Let_def penalty_assign_ids)

lemma sort_key_pair: "f a \<le> f b \<Longrightarrow> sort_key f [a, b] = [a, b]"
  by (simp add: sort_key_def)

section \<open>The claims\<close>

text \<open>
  Claim C1, as amended.  The penalty of a merged record is the product of the weight of its tier
  (T1 = 20, T2 = 10, T3 = 4, T4 = 1), the multiplier of its severity (high = 1.0, med = 0.6,
  low = 0.3) and the multiplier of its confidence (high = 1.0, med = 0.75, low = 0.5), computed
  in double precision: the decimals are the nearest floats and every product is rounded.  The
  strict score is 100 minus the sum of the penalties of all records, the overall score is 100
  minus the sum of the penalties of the open records plus half the sum of those of the wontfix
  records, again in double precision, the sums as the builtin \<^verbatim>\<open>sum\<close> of the interpreter
  computes them; each is clamped to the interval from 0 to 100 and rounded to two decimals, that
  is, replaced by the float of the nearest multiple of 0.01 (the nearest integer after
  multiplying by 100, the even one at a tie).  Both scores lie between 0 and 100 for every list
  of records.  A single open record with detector dead_unused_code, tier T1, severity high and
  confidence high gives one merged record and both scores equal to 80.
\<close>

theorem penalty_and_scores:
  "(tierWeight (tier m) = Some w \<and> severityMultiplier (severity m) = Some s
      \<and> confidenceMultiplier (confidence m) = Some c
    \<longrightarrow> penalty m = fmul (fmul w (to_double s)) (to_double c))
   \<and> strict_score (score alg records)
       = round2 (max 0 (min 100 (fsub 100 (py_sum alg (map penalty records)))))
   \<and> overall_score (score alg records)
       = round2 (max 0 (min 100 (fsub 100
           (fadd (py_sum alg (map penalty (filter (\<lambda>r. status r = ''open'') records)))
              (fmul (1 / 2)
                 (py_sum alg (map penalty (filter (\<lambda>r. status r = ''wontfix'') records))))))))
   \<and> round2 y = to_double (of_int (round_half_even (y * 100)) / 100)
   \<and> (\<forall>n. \<bar>y * 100 - of_int (round_half_even (y * 100))\<bar> \<le> \<bar>y * 100 - of_int n\<bar>)
   \<and> (\<bar>y * 100 - of_int (round_half_even (y * 100))\<bar> = 1 / 2
      \<longrightarrow> even (round_half_even (y * 100)))
   \<and> 0 \<le> strict_score (score alg records) \<and> strict_score (score alg records) \<le> 100
   \<and> 0 \<le> overall_score (score alg records) \<and> overall_score (score alg records) \<le> 100
   \<and> (get_str r ''detector'' [] = ''dead_unused_code'' \<and> get_str r ''tier'' ''T4'' = ''T1''
      \<and> get_str r ''severity'' ''low'' = ''high'' \<and> get_str r ''confidence'' ''low'' = ''high''
      \<and> get_str r ''status'' ''open'' = ''open''
    \<longrightarrow> length (merge_all [r]) = 1 \<and> total_findings (build_report alg [r]) = 1
      \<and> report_scores (build_report alg [r]) = \<lparr> overall_score = 80, strict_score = 80 \<rparr>)"
proof -
  have scenario:
    "report_scores (build_report alg [r]) = \<lparr> overall_score = 80, strict_score = 80 \<rparr>"
    if "get_str r ''tier'' ''T4'' = ''T1''" "get_str r ''severity'' ''low'' = ''high''"
      "get_str r ''confidence'' ''low'' = ''high''" "get_str r ''status'' ''open'' = ''open''"
  proof -
    let ?m = "(initial_record r)\<lparr>fid := ''F001''\<rparr>"
    have "penalty ?m = 20"
      by (rule penalty_T1_high_high) (simp_all add: initial_record_def that)
    moreover have "status ?m = ''open''"
      by (simp add: initial_record_def that)
    ultimately have "score alg [?m] = \<lparr> overall_score = 80, strict_score = 80 \<rparr>"
      by (rule score_single_open)
    then show ?thesis
      by (simp add: build_report_single Let_def)
  qed
  have tables: "tierWeight (tier m) = Some w \<and> severityMultiplier (severity m) = Some s
      \<and> confidenceMultiplier (confidence m) = Some c
    \<longrightarrow> penalty m = fmul (fmul w (to_double s)) (to_double c)"
    using penalty_tables [of m w s c] by blast
  have strict: "strict_score (score alg records)
       = round2 (max 0 (min 100 (fsub 100 (py_sum alg (map penalty records)))))"
    by (simp add: score_def Let_def)
  have overall: "overall_score (score alg records)
       = round2 (max 0 (min 100 (fsub 100
           (fadd (py_sum alg (map penalty (filter (\<lambda>r. status r = ''open'') records)))
              (fmul (1 / 2)
                 (py_sum alg (map penalty (filter (\<lambda>r. status r = ''wontfix'') records))))))))"
    by (simp add: score_def Let_def)
  have rounding: "round2 y = to_double (of_int (round_half_even (y * 100)) / 100)"
    by (simp only: round2_def)
  have nearest: "\<forall>n. \<bar>y * 100 - of_int (round_half_even (y * 100))\<bar> \<le> \<bar>y * 100 - of_int n\<bar>"
    by (intro allI) (rule rhe_nearest_int)
  have tie: "\<bar>y * 100 - of_int (round_half_even (y * 100))\<bar> = 1 / 2
      \<longrightarrow> even (round_half_even (y * 100))"
    by (intro impI) (rule rhe_tie_even)
  have single: "get_str r ''detector'' [] = ''dead_unused_code'' \<and> get_str r ''tier'' ''T4'' = ''T1''
      \<and> get_str r ''severity'' ''low'' = ''high'' \<and> get_str r ''confidence'' ''low'' = ''high''
      \<and> get_str r ''status'' ''open'' = ''open''
    \<longrightarrow> length (merge_all [r]) = 1 \<and> total_findings (build_report alg [r]) = 1
      \<and> report_scores (build_report alg [r]) = \<lparr> overall_score = 80, strict_score = 80 \<rparr>"
    using scenario by (simp add: merge_all_single build_report_single Let_def)
  show ?thesis
    by (intro conjI tables strict overall rounding nearest tie single
        score_bounds [THEN conjunct1] score_bounds [THEN conjunct2, THEN conjunct1]
        score_bounds [THEN conjunct2, THEN conjunct2, THEN conjunct1]
        score_bounds [THEN conjunct2, THEN conjunct2, THEN conjunct2])
qed

theorem penalty_and_scores_witness:
  "tierWeight ''T2'' = Some 10 \<and> severityMultiplier ''med'' = Some (6 / 10)
   \<and> confidenceMultiplier ''low'' = Some (5 / 10)
   \<and> penalty (initial_record [(''tier'', JStr ''T2''), (''severity'', JStr ''med'')]) = 3
   \<and> \<bar>(1 / 8) * 100 - of_int (round_half_even ((1 / 8) * 100))\<bar> = (1 / 2 :: rat)
   \<and> round_half_even ((1 / 8) * 100) = 12
   \<and> round2 (1 / 8) = to_double (12 / 100)
   \<and> get_str scenario_A ''detector'' [] = ''dead_unused_code''
   \<and> get_str scenario_A ''tier'' ''T4'' = ''T1''
   \<and> get_str scenario_A ''severity'' ''low'' = ''high''
   \<and> get_str scenario_A ''confidence'' ''low'' = ''high''
   \<and> get_str scenario_A ''status'' ''open'' = ''open''
   \<and> length (merge_all [scenario_A]) = 1
   \<and> report_scores (build_report Plain [scenario_A]) = \<lparr> overall_score = 80, strict_score = 80 \<rparr>
   \<and> report_scores (build_report Compensated [scenario_A])
       = \<lparr> overall_score = 80, strict_score = 80 \<rparr>
   \<and> strict_score (score Plain (map snd (merge_all four_records))) = to_double (5857 / 100)
   \<and> strict_score (score Compensated (map snd (merge_all four_records))) = to_double (5858 / 100)"
proof -
  let ?rec = "initial_record [(''tier'', JStr ''T2''), (''severity'', JStr ''med'')]"
  let ?ms = "map snd (merge_all four_records)"
  have tables: "tierWeight (tier ?rec) = Some 10" "severityMultiplier (severity ?rec) = Some (6 / 10)"
    "confidenceMultiplier (confidence ?rec) = Some (5 / 10)"
    by code_simp+
  have hyps: "get_str scenario_A ''detector'' [] = ''dead_unused_code''"
    "get_str scenario_A ''tier'' ''T4'' = ''T1''"
    "get_str scenario_A ''severity'' ''low'' = ''high''"
    "get_str scenario_A ''confidence'' ''low'' = ''high''"
    "get_str scenario_A ''status'' ''open'' = ''open''"
    by code_simp+
  have v: "fmul (fmul 10 (to_double (6 / 10))) (to_double (5 / 10)) = 3"
    by code_simp
  have t: "tierWeight ''T2'' = Some 10" "severityMultiplier ''med'' = Some (6 / 10)"
    "confidenceMultiplier ''low'' = Some (5 / 10)"
    by code_simp+
  have h: "\<bar>(1 / 8) * 100 - of_int (round_half_even ((1 / 8) * 100))\<bar> = (1 / 2 :: rat)"
    and e: "round_half_even ((1 / 8) * 100) = 12"
    by code_simp+
  have sp: "round2 (max 0 (min 100 (fsub 100 (py_sum Plain (map penalty ?ms)))))
      = to_double (5857 / 100)"
    by code_simp
  have sc: "round2 (max 0 (min 100 (fsub 100 (py_sum Compensated (map penalty ?ms)))))
      = to_double (5858 / 100)"
    by code_simp
  note plain = penalty_and_scores [where m = ?rec and w = 10 and s = "6 / 10" and c = "5 / 10"
      and alg = Plain and records = ?ms and y = "1 / 8" and r = scenario_A]
  note comp = penalty_and_scores [where m = ?rec and w = 10 and s = "6 / 10" and c = "5 / 10"
      and alg = Compensated and records = ?ms and y = "1 / 8" and r = scenario_A]
  from plain tables have 1: "penalty ?rec = fmul (fmul 10 (to_double (6 / 10))) (to_double (5 / 10))"
    by blast
  from plain h have 2: "even (round_half_even ((1 / 8) * 100))"
    by blast
  from plain have 3: "round2 (1 / 8) = to_double (of_int (round_half_even ((1 / 8) * 100)) / 100)"
    by blast
  from plain hyps have 4: "length (merge_all [scenario_A]) = 1"
    "report_scores (build_report Plain [scenario_A]) = \<lparr> overall_score = 80, strict_score = 80 \<rparr>"
    by blast+
  from comp hyps have 5:
    "report_scores (build_report Compensated [scenario_A]) = \<lparr> overall_score = 80, strict_score = 80 \<rparr>"
    by blast
  from plain have 6: "strict_score (score Plain ?ms)
      = round2 (max 0 (min 100 (fsub 100 (py_sum Plain (map penalty ?ms)))))"
    by blast
  from comp have 7: "strict_score (score Compensated ?ms)
      = round2 (max 0 (min 100 (fsub 100 (py_sum Compensated (map penalty ?ms)))))"
    by blast
  have a: "penalty ?rec = 3"
    using 1 v by simp
  have b: "round2 (1 / 8) = to_double (12 / 100)"
    using 3 e by simp
  have c: "strict_score (score Plain ?ms) = to_double (5857 / 100)"
    using 6 sp by simp
  have d: "strict_score (score Compensated ?ms) = to_double (5858 / 100)"
    using 7 sc by simp
  show ?thesis
    by (intro conjI) (fact t h e hyps 4 5 a b c d)+
qed

theorem penalty_and_scores_counterexample:
  "map (rank_fields \<circ> snd) (merge_all [tie_A, tie_B])
     = [(''T3'', ''med'', ''med''), (''T4'', ''low'', ''med'')]
   \<and> map exact_penalty (map snd (merge_all [tie_A, tie_B])) = [18 / 10, 225 / 1000]
   \<and> exact_strict_value (map snd (merge_all [tie_A, tie_B])) = 97975 / 1000
   \<and> exact_strict_score (map snd (merge_all [tie_A, tie_B])) = 9798 / 100
   \<and> strict_score (report_scores (build_report Plain [tie_A, tie_B])) = to_double (9797 / 100)
   \<and> strict_score (report_scores (build_report Compensated [tie_A, tie_B]))
       = to_double (9797 / 100)
   \<and> to_double (9797 / 100) < 9797 / 100 + 1 / 1000"
proof -
  let ?ms = "map snd (merge_all [tie_A, tie_B])"
  have m: "?ms = [initial_record tie_A, initial_record tie_B]"
    by code_simp
  have k: "priority_sort_key (initial_record tie_A) \<le> priority_sort_key (initial_record tie_B)"
    by code_simp
  have s: "sort_key priority_sort_key ?ms = [initial_record tie_A, initial_record tie_B]"
    unfolding m using k by (rule sort_key_pair)
  have 1: "map (rank_fields \<circ> snd) (merge_all [tie_A, tie_B])
     = [(''T3'', ''med'', ''med''), (''T4'', ''low'', ''med'')]"
    by code_simp
  have 2: "map exact_penalty ?ms = [18 / 10, 225 / 1000]"
    by code_simp
  have 3: "exact_strict_value ?ms = 97975 / 1000"
    by code_simp
  have 4: "exact_strict_score ?ms = 9798 / 100"
    by code_simp
  have 5: "strict_score (score Plain [initial_record tie_A, initial_record tie_B])
      = to_double (9797 / 100)"
    by code_simp
  have 6: "strict_score (score Compensated [initial_record tie_A, initial_record tie_B])
      = to_double (9797 / 100)"
    by code_simp
  have 7: "to_double (9797 / 100) < 9797 / 100 + 1 / 1000"
    by code_simp
  show ?thesis
    by (intro conjI 1 2 3 4 7) (simp_all only: strict_score_build_report s 5 6)
qed

lemma merge_all_snoc: "merge_all (xs @ [x]) = fold_step (merge_all xs) x"
  by (simp add: merge_all_def)

lemma map_of_fold_step:
  "map_of (fold_step b x) k =
     (if k = normalized_fingerprint x
      then Some (case map_of b k of None \<Rightarrow> initial_record x | Some e \<Rightarrow> merge_record e x)
      else map_of b k)"
  by (simp add: fold_step_def Let_def update_conv' split: option.splits)

lemma fold_bucket_snoc:
  "fold_bucket (rs @ [x]) =
     Some (case fold_bucket rs of None \<Rightarrow> initial_record x | Some e \<Rightarrow> merge_record e x)"
  by (cases rs) (simp_all add: fold_bucket_def)

lemma map_of_merge_all:
  "map_of (merge_all xs) k = fold_bucket (filter (\<lambda>r. normalized_fingerprint r = k) xs)"
proof (induction xs rule: rev_induct)
  case Nil
  show ?case by (simp add: merge_all_def fold_bucket_def)
next
  case (snoc x xs)
  show ?case
  proof (cases "normalized_fingerprint x = k")
    case True
    then show ?thesis
      by (simp add: merge_all_snoc map_of_fold_step fold_bucket_snoc snoc.IH)
  next
    case False
    then show ?thesis
      by (auto simp add: merge_all_snoc map_of_fold_step snoc.IH)
  qed
qed







lemma merge_all_pair:
  "merge_all [a, b] =
     (if normalized_fingerprint a = normalized_fingerprint b
      then [(normalized_fingerprint a, merge_record (initial_record a) b)]
      else [(normalized_fingerprint a, initial_record a),
            (normalized_fingerprint b, initial_record b)])"
  by (simp add: merge_all_def fold_step_def)

lemma rank_merge_record:
  "dict_get TIER_RANK (tier (merge_record e c)) 0
     = max (dict_get TIER_RANK (tier e) 0) (dict_get TIER_RANK (get_str c ''tier'' (tier e)) 0)"
  "dict_get SEVERITY_RANK (severity (merge_record e c)) 0
     = max (dict_get SEVERITY_RANK (severity e) 0)
         (dict_get SEVERITY_RANK (get_str c ''severity'' (severity e)) 0)"
  "dict_get CONFIDENCE_RANK (confidence (merge_record e c)) 0
     = max (dict_get CONFIDENCE_RANK (confidence e) 0)
         (dict_get CONFIDENCE_RANK (get_str c ''confidence'' (confidence e)) 0)"
  by (simp_all only: tier_merge_record severity_merge_record confidence_merge_record
      stronger_rank)

lemma rank_foldl_mono:
  "dict_get TIER_RANK (tier e) 0 \<le> dict_get TIER_RANK (tier (foldl merge_record e cs)) 0"
  "dict_get SEVERITY_RANK (severity e) 0
     \<le> dict_get SEVERITY_RANK (severity (foldl merge_record e cs)) 0"
  "dict_get CONFIDENCE_RANK (confidence e) 0
     \<le> dict_get CONFIDENCE_RANK (confidence (foldl merge_record e cs)) 0"
proof (induction cs arbitrary: e)
  case Nil
  {
    case 1 show ?case by simp
  next
    case 2 show ?case by simp
  next
    case 3 show ?case by simp
  }
next
  case (Cons c cs)
  {
    case 1
    have "dict_get TIER_RANK (tier e) 0 \<le> dict_get TIER_RANK (tier (merge_record e c)) 0"
      by (simp add: rank_merge_record)
    also note Cons.IH(1) [of "merge_record e c"]
    finally show ?case by simp
  next
    case 2
    have "dict_get SEVERITY_RANK (severity e) 0
        \<le> dict_get SEVERITY_RANK (severity (merge_record e c)) 0"
      by (simp add: rank_merge_record)
    also note Cons.IH(2) [of "merge_record e c"]
    finally show ?case by simp
  next
    case 3
    have "dict_get CONFIDENCE_RANK (confidence e) 0
        \<le> dict_get CONFIDENCE_RANK (confidence (merge_record e c)) 0"
      by (simp add: rank_merge_record)
    also note Cons.IH(3) [of "merge_record e c"]
    finally show ?case by simp
  }
qed

text \<open>
  The rank that a contributing record has in a field, against the rank of the merged finding.
  The lemmas are stated for a field \<open>g\<close> of the merged finding with its key, its rank table and
  its default, and used for tier, severity and confidence.
\<close>

lemma read_rank_present:
  "map_of x field \<noteq> None \<Longrightarrow> read_rank rank field d x = dict_get rank (get_str x field d') 0"
  by (auto simp add: read_rank_def get_str_def get_or_def)

lemma read_rank_absent:
  "map_of x field = None \<Longrightarrow> read_rank rank field d x = dict_get rank (strip d) 0"
  by (simp add: read_rank_def get_str_def get_or_def py_str_def)

lemma default_ranks:
  "dict_get TIER_RANK (strip ''T4'') 0 = 1" "dict_get SEVERITY_RANK (strip ''low'') 0 = 1"
  "dict_get CONFIDENCE_RANK (strip ''low'') 0 = 1"
  by code_simp+

lemma read_rank_fold:
  assumes step: "\<And>e c. dict_get rank (g (merge_record e c)) 0
        = max (dict_get rank (g e) 0) (dict_get rank (get_str c field (g e)) 0)"
    and mono: "\<And>e cs. dict_get rank (g e) 0 \<le> dict_get rank (g (foldl merge_record e cs)) 0"
    and dflt: "dict_get rank (strip d) 0 = 1"
    and x: "x \<in> set cs"
    and ok: "map_of x field \<noteq> None \<or> 0 < dict_get rank (g (foldl merge_record e cs)) 0"
  shows "read_rank rank field d x \<le> dict_get rank (g (foldl merge_record e cs)) 0"
proof (cases "map_of x field = None")
  case True
  with ok have "0 < dict_get rank (g (foldl merge_record e cs)) 0" by simp
  then show ?thesis
    by (simp add: read_rank_absent [OF True] dflt)
next
  case False
  from x obtain ys zs where cs: "cs = ys @ x # zs"
    by (auto simp add: in_set_conv_decomp)
  let ?e = "foldl merge_record e ys"
  have "read_rank rank field d x = dict_get rank (get_str x field (g ?e)) 0"
    using False by (rule read_rank_present)
  also have "\<dots> \<le> dict_get rank (g (merge_record ?e x)) 0"
    by (simp add: step)
  also have "\<dots> \<le> dict_get rank (g (foldl merge_record (merge_record ?e x) zs)) 0"
    by (rule mono)
  finally show ?thesis
    by (simp add: cs)
qed

lemma read_rank_bucket:
  assumes step: "\<And>e c. dict_get rank (g (merge_record e c)) 0
        = max (dict_get rank (g e) 0) (dict_get rank (get_str c field (g e)) 0)"
    and mono: "\<And>e cs. dict_get rank (g e) 0 \<le> dict_get rank (g (foldl merge_record e cs)) 0"
    and dflt: "dict_get rank (strip d) 0 = 1"
    and init: "\<And>r. g (initial_record r) = get_str r field d"
    and m: "fold_bucket rs = Some m"
    and x: "x \<in> set rs"
    and ok: "map_of x field \<noteq> None \<or> x = hd rs \<or> 0 < dict_get rank (g m) 0"
  shows "read_rank rank field d x \<le> dict_get rank (g m) 0"
proof -
  from m obtain r cs where rs: "rs = r # cs"
    and m': "m = foldl merge_record (initial_record r) cs"
    by (auto simp add: fold_bucket_def split: list.splits)
  show ?thesis
  proof (cases "x = r")
    case True
    have "read_rank rank field d x = dict_get rank (g (initial_record r)) 0"
      by (simp add: read_rank_def init True)
    also have "\<dots> \<le> dict_get rank (g m) 0"
      unfolding m' by (rule mono)
    finally show ?thesis .
  next
    case False
    with x rs have "x \<in> set cs" by simp
    moreover from ok False rs
    have "map_of x field \<noteq> None \<or> 0 < dict_get rank (g (foldl merge_record (initial_record r) cs)) 0"
      by (simp add: m')
    ultimately show ?thesis
      unfolding m' by (rule read_rank_fold [OF step mono dflt])
  qed
qed

lemma hd_filter_find: "find P xs = Some x \<Longrightarrow> x = hd (filter P xs)"
  by (induction xs) (auto split: if_splits)

text \<open>
  Claim C4, as amended.  Folding a record into a merged finding leaves each of tier, severity
  and confidence at the rank that is the maximum of the rank it had and the rank of the value
  read from the record, so the rank never decreases, neither in one fold nor over any sequence of
  folds.  In the merged set, the rank of each of the three fields of a merged finding is at least
  the rank that the field has in a contributing record (a record with its fingerprint; a field
  that the record lacks counts with its default T4, low or low) whenever the record has the
  field, or is the first record of its fingerprint, or the merged value is a value of the rank
  table.  (A later record without the field is read as the current merged value, so after
  values outside the table only, the merged rank stays 0, below the rank 1 of the default.)
\<close>

theorem monotonic_strengthening:
  "dict_get TIER_RANK (tier (merge_record e c)) 0
     = max (dict_get TIER_RANK (tier e) 0) (dict_get TIER_RANK (get_str c ''tier'' (tier e)) 0)
   \<and> dict_get SEVERITY_RANK (severity (merge_record e c)) 0
     = max (dict_get SEVERITY_RANK (severity e) 0)
         (dict_get SEVERITY_RANK (get_str c ''severity'' (severity e)) 0)
   \<and> dict_get CONFIDENCE_RANK (confidence (merge_record e c)) 0
     = max (dict_get CONFIDENCE_RANK (confidence e) 0)
         (dict_get CONFIDENCE_RANK (get_str c ''confidence'' (confidence e)) 0)
   \<and> dict_get TIER_RANK (tier e) 0 \<le> dict_get TIER_RANK (tier (foldl merge_record e cs)) 0
   \<and> dict_get SEVERITY_RANK (severity e) 0
       \<le> dict_get SEVERITY_RANK (severity (foldl merge_record e cs)) 0
   \<and> dict_get CONFIDENCE_RANK (confidence e) 0
       \<le> dict_get CONFIDENCE_RANK (confidence (foldl merge_record e cs)) 0
   \<and> (map_of (merge_all loaded) k = Some m \<and> x \<in> set loaded \<and> normalized_fingerprint x = k
      \<longrightarrow>
        (map_of x ''tier'' \<noteq> None \<or> find (\<lambda>r. normalized_fingerprint r = k) loaded = Some x
           \<or> 0 < dict_get TIER_RANK (tier m) 0
         \<longrightarrow> read_rank TIER_RANK ''tier'' ''T4'' x \<le> dict_get TIER_RANK (tier m) 0)
        \<and> (map_of x ''severity'' \<noteq> None
             \<or> find (\<lambda>r. normalized_fingerprint r = k) loaded = Some x
             \<or> 0 < dict_get SEVERITY_RANK (severity m) 0
           \<longrightarrow> read_rank SEVERITY_RANK ''severity'' ''low'' x
               \<le> dict_get SEVERITY_RANK (severity m) 0)
        \<and> (map_of x ''confidence'' \<noteq> None
             \<or> find (\<lambda>r. normalized_fingerprint r = k) loaded = Some x
             \<or> 0 < dict_get CONFIDENCE_RANK (confidence m) 0
           \<longrightarrow> read_rank CONFIDENCE_RANK ''confidence'' ''low'' x
               \<le> dict_get CONFIDENCE_RANK (confidence m) 0))"
proof -
  let ?rs = "filter (\<lambda>r. normalized_fingerprint r = k) loaded"
  have t: "read_rank TIER_RANK ''tier'' ''T4'' x \<le> dict_get TIER_RANK (tier m) 0"
    if "map_of (merge_all loaded) k = Some m" "x \<in> set loaded" "normalized_fingerprint x = k"
      "map_of x ''tier'' \<noteq> None \<or> find (\<lambda>r. normalized_fingerprint r = k) loaded = Some x
         \<or> 0 < dict_get TIER_RANK (tier m) 0"
  proof (rule read_rank_bucket [where g = tier and rs = ?rs])
    show "fold_bucket ?rs = Some m" using that(1) by (simp add: map_of_merge_all)
    show "x \<in> set ?rs" using that(2,3) by simp
    show "map_of x ''tier'' \<noteq> None \<or> x = hd ?rs \<or> 0 < dict_get TIER_RANK (tier m) 0"
      using that(4) hd_filter_find [of "\<lambda>r. normalized_fingerprint r = k" loaded x] by blast
  qed (simp_all add: rank_merge_record rank_foldl_mono default_ranks initial_record_def)
  have s: "read_rank SEVERITY_RANK ''severity'' ''low'' x \<le> dict_get SEVERITY_RANK (severity m) 0"
    if "map_of (merge_all loaded) k = Some m" "x \<in> set loaded" "normalized_fingerprint x = k"
      "map_of x ''severity'' \<noteq> None \<or> find (\<lambda>r. normalized_fingerprint r = k) loaded = Some x
         \<or> 0 < dict_get SEVERITY_RANK (severity m) 0"
  proof (rule read_rank_bucket [where g = severity and rs = ?rs])
    show "fold_bucket ?rs = Some m" using that(1) by (simp add: map_of_merge_all)
    show "x \<in> set ?rs" using that(2,3) by simp
    show "map_of x ''severity'' \<noteq> None \<or> x = hd ?rs \<or> 0 < dict_get SEVERITY_RANK (severity m) 0"
      using that(4) hd_filter_find [of "\<lambda>r. normalized_fingerprint r = k" loaded x] by blast
  qed (simp_all add: rank_merge_record rank_foldl_mono default_ranks initial_record_def)
  have c: "read_rank CONFIDENCE_RANK ''confidence'' ''low'' x
      \<le> dict_get CONFIDENCE_RANK (confidence m) 0"
    if "map_of (merge_all loaded) k = Some m" "x \<in> set loaded" "normalized_fingerprint x = k"
      "map_of x ''confidence'' \<noteq> None \<or> find (\<lambda>r. normalized_fingerprint r = k) loaded = Some x
         \<or> 0 < dict_get CONFIDENCE_RANK (confidence m) 0"
  proof (rule read_rank_bucket [where g = confidence and rs = ?rs])
    show "fold_bucket ?rs = Some m" using that(1) by (simp add: map_of_merge_all)
    show "x \<in> set ?rs" using that(2,3) by simp
    show "map_of x ''confidence'' \<noteq> None \<or> x = hd ?rs
        \<or> 0 < dict_get CONFIDENCE_RANK (confidence m) 0"
      using that(4) hd_filter_find [of "\<lambda>r. normalized_fingerprint r = k" loaded x] by blast
  qed (simp_all add: rank_merge_record rank_foldl_mono default_ranks initial_record_def)
  show ?thesis
    using t s c by (intro conjI impI rank_merge_record rank_foldl_mono) blast+
qed

theorem monotonic_strengthening_witness:
  "map_of (merge_all [scenario_B1, scenario_B2]) (normalized_fingerprint scenario_B1)
     = Some (merge_record (initial_record scenario_B1) scenario_B2)
   \<and> scenario_B2 \<in> set [scenario_B1, scenario_B2]
   \<and> normalized_fingerprint scenario_B2 = normalized_fingerprint scenario_B1
   \<and> map_of scenario_B2 ''tier'' \<noteq> None
   \<and> read_rank TIER_RANK ''tier'' ''T4'' scenario_B2 = 4
   \<and> read_rank TIER_RANK ''tier'' ''T4'' scenario_B2
       \<le> dict_get TIER_RANK (tier (merge_record (initial_record scenario_B1) scenario_B2)) 0
   \<and> tier (merge_record (initial_record scenario_B1) scenario_B2) = ''T1''
   \<and> map_of (merge_all [scenario_B1, bare_record]) (normalized_fingerprint scenario_B1)
     = Some (merge_record (initial_record scenario_B1) bare_record)
   \<and> bare_record \<in> set [scenario_B1, bare_record]
   \<and> normalized_fingerprint bare_record = normalized_fingerprint scenario_B1
   \<and> map_of bare_record ''severity'' = None
   \<and> 0 < dict_get SEVERITY_RANK
             (severity (merge_record (initial_record scenario_B1) bare_record)) 0
   \<and> read_rank SEVERITY_RANK ''severity'' ''low'' bare_record = 1
   \<and> read_rank SEVERITY_RANK ''severity'' ''low'' bare_record
       \<le> dict_get SEVERITY_RANK
            (severity (merge_record (initial_record scenario_B1) bare_record)) 0"
proof -
  let ?m = "merge_record (initial_record scenario_B1) scenario_B2"
  let ?n = "merge_record (initial_record scenario_B1) bare_record"
  have h: "map_of (merge_all [scenario_B1, scenario_B2]) (normalized_fingerprint scenario_B1)
     = Some ?m"
    "scenario_B2 \<in> set [scenario_B1, scenario_B2]"
    "normalized_fingerprint scenario_B2 = normalized_fingerprint scenario_B1"
    "map_of scenario_B2 ''tier'' \<noteq> None"
    by code_simp+
  have v: "read_rank TIER_RANK ''tier'' ''T4'' scenario_B2 = 4" "tier ?m = ''T1''"
    by code_simp+
  have g: "map_of (merge_all [scenario_B1, bare_record]) (normalized_fingerprint scenario_B1)
     = Some ?n"
    "bare_record \<in> set [scenario_B1, bare_record]"
    "normalized_fingerprint bare_record = normalized_fingerprint scenario_B1"
    "map_of bare_record ''severity'' = None"
    "0 < dict_get SEVERITY_RANK (severity ?n) 0"
    by code_simp+
  have w: "read_rank SEVERITY_RANK ''severity'' ''low'' bare_record = 1"
    by code_simp
  from h monotonic_strengthening [where e = "initial_record scenario_B1" and c = scenario_B2
      and cs = "[]" and loaded = "[scenario_B1, scenario_B2]"
      and k = "normalized_fingerprint scenario_B1" and m = ?m and x = scenario_B2]
  have 1: "read_rank TIER_RANK ''tier'' ''T4'' scenario_B2 \<le> dict_get TIER_RANK (tier ?m) 0"
    by blast
  from g monotonic_strengthening [where e = "initial_record scenario_B1" and c = bare_record
      and cs = "[]" and loaded = "[scenario_B1, bare_record]"
      and k = "normalized_fingerprint scenario_B1" and m = ?n and x = bare_record]
  have 2: "read_rank SEVERITY_RANK ''severity'' ''low'' bare_record
      \<le> dict_get SEVERITY_RANK (severity ?n) 0"
    by blast
  show ?thesis
    by (intro conjI) (fact h v g w 1 2)+
qed

theorem monotonic_strengthening_counterexample:
  "normalized_fingerprint bare_record = normalized_fingerprint odd_values
   \<and> map (rank_fields \<circ> snd) (merge_all [odd_values, bare_record]) = [(''T9'', ''critical'', ''3'')]
   \<and> dict_get TIER_RANK ''T9'' 0 = 0
   \<and> dict_get SEVERITY_RANK ''critical'' 0 = 0
   \<and> dict_get CONFIDENCE_RANK ''3'' 0 = 0
   \<and> rank_fields (initial_record bare_record) = (''T4'', ''low'', ''low'')
   \<and> read_rank TIER_RANK ''tier'' ''T4'' bare_record = 1
   \<and> read_rank SEVERITY_RANK ''severity'' ''low'' bare_record = 1
   \<and> read_rank CONFIDENCE_RANK ''confidence'' ''low'' bare_record = 1"
  by code_simp

text \<open>
  Claim C5.  When the status read from the record being folded in differs from the status of
  the merged finding, the conflict \<^verbatim>\<open>status: <old> vs <new>\<close> is recorded (and the finding
  flagged), and the merged status is \<^verbatim>\<open>open\<close> if either of the two is \<^verbatim>\<open>open\<close>, otherwise
  the status the finding had.  Two records with one fingerprint, one \<^verbatim>\<open>fixed\<close> and one
  \<^verbatim>\<open>open\<close>, merge into one finding with status \<^verbatim>\<open>open\<close>, in either order.
\<close>

theorem status_reconciliation:
  "(get_str c ''status'' ''open'' \<noteq> status e \<longrightarrow>
      ''status: '' @ status e @ '' vs '' @ get_str c ''status'' ''open'' \<in> set (conflicts e c)
      \<and> needs_validation (merge_record e c)
      \<and> status (merge_record e c)
          = (if status e = ''open'' \<or> get_str c ''status'' ''open'' = ''open'' then ''open''
             else status e))
   \<and> (normalized_fingerprint a = normalized_fingerprint b
      \<and> (get_str a ''status'' ''open'' = ''fixed'' \<and> get_str b ''status'' ''open'' = ''open''
         \<or> get_str a ''status'' ''open'' = ''open'' \<and> get_str b ''status'' ''open'' = ''fixed'')
      \<longrightarrow> map (\<lambda>(k, m). status m) (merge_all [a, b]) = [''open''])"
proof -
  have 1: "''status: '' @ status e @ '' vs '' @ get_str c ''status'' ''open'' \<in> set (conflicts e c)
      \<and> needs_validation (merge_record e c)
      \<and> status (merge_record e c)
          = (if status e = ''open'' \<or> get_str c ''status'' ''open'' = ''open'' then ''open''
             else status e)"
    if "get_str c ''status'' ''open'' \<noteq> status e"
  proof -
    have "''status: '' @ status e @ '' vs '' @ get_str c ''status'' ''open'' \<in> set (conflicts e c)"
      using that by (rule conflicts_status)
    moreover from this have "conflicts e c \<noteq> []" by auto
    then have "needs_validation (merge_record e c)"
      by (simp add: needs_validation_merge_record)
    moreover have "status (merge_record e c)
          = (if status e = ''open'' \<or> get_str c ''status'' ''open'' = ''open'' then ''open''
             else status e)"
      using that by (simp add: status_merge_record)
    ultimately show ?thesis by blast
  qed
  have 2: "map (\<lambda>(k, m). status m) (merge_all [a, b]) = [''open'']"
    if "normalized_fingerprint a = normalized_fingerprint b"
      and "get_str a ''status'' ''open'' = ''fixed'' \<and> get_str b ''status'' ''open'' = ''open''
         \<or> get_str a ''status'' ''open'' = ''open'' \<and> get_str b ''status'' ''open'' = ''fixed''"
    using that by (auto simp add: merge_all_pair status_merge_record initial_record_def)
  from 1 2 show ?thesis by blast
qed

theorem status_reconciliation_witness:
  "get_str scenario_C2 ''status'' ''open'' \<noteq> status (initial_record scenario_C1)
   \<and> ''status: fixed vs open'' \<in> set (conflicts (initial_record scenario_C1) scenario_C2)
   \<and> normalized_fingerprint scenario_C1 = normalized_fingerprint scenario_C2
   \<and> normalized_fingerprint scenario_C2 = normalized_fingerprint scenario_C1
   \<and> get_str scenario_C1 ''status'' ''open'' = ''fixed''
   \<and> get_str scenario_C2 ''status'' ''open'' = ''open''
   \<and> map (\<lambda>(k, m). status m) (merge_all [scenario_C1, scenario_C2]) = [''open'']
   \<and> map (\<lambda>(k, m). status m) (merge_all [scenario_C2, scenario_C1]) = [''open'']"
proof -
  have h: "get_str scenario_C2 ''status'' ''open'' \<noteq> status (initial_record scenario_C1)"
    "normalized_fingerprint scenario_C1 = normalized_fingerprint scenario_C2"
    "get_str scenario_C1 ''status'' ''open'' = ''fixed''"
    "get_str scenario_C2 ''status'' ''open'' = ''open''"
    by code_simp+
  have v: "''status: '' @ status (initial_record scenario_C1) @ '' vs ''
             @ get_str scenario_C2 ''status'' ''open'' = ''status: fixed vs open''"
    by code_simp
  from h status_reconciliation [of scenario_C2 "initial_record scenario_C1" scenario_C1 scenario_C2]
  have 1: "''status: '' @ status (initial_record scenario_C1) @ '' vs ''
             @ get_str scenario_C2 ''status'' ''open''
           \<in> set (conflicts (initial_record scenario_C1) scenario_C2)"
    and 2: "map (\<lambda>(k, m). status m) (merge_all [scenario_C1, scenario_C2]) = [''open'']"
    by blast+
  from h status_reconciliation [of scenario_C2 "initial_record scenario_C1" scenario_C2 scenario_C1]
  have 3: "map (\<lambda>(k, m). status m) (merge_all [scenario_C2, scenario_C1]) = [''open'']"
    by simp
  from 1 have "''status: fixed vs open'' \<in> set (conflicts (initial_record scenario_C1) scenario_C2)"
    by (simp only: v)
  with h 2 3 show ?thesis by simp
qed
























lemma carried_get_str: "carried x field = Some v \<Longrightarrow> get_str x field d = v"
  by (auto simp add: carried_def get_str_def get_or_def)




















text \<open>
  Claim C7, at an input where the code departs from it.  Of two records with one fingerprint,
  the first has the line 0 and the second the line 5: the merged finding keeps the line 0 of the
  record that seeds it, while in the other order it has the line 5.
\<close>

theorem smallest_line_failing_input:
  "normalized_fingerprint line_first = normalized_fingerprint line_second
   \<and> map (\<lambda>(k, m). line m) (merge_all [line_first, line_second]) = [JInt 0]
   \<and> map (\<lambda>(k, m). line m) (merge_all [line_second, line_first]) = [JInt 5]"
  by code_simp

lemma load_findings_append:
  "load_findings (xs @ ys) = load_findings xs @ load_findings ys"
  by (induction xs rule: load_findings.induct) (simp_all split: option.splits)

lemma load_findings_skip:
  "records_of payload = None \<Longrightarrow>
   load_findings (pre @ (path, payload) # post) = load_findings (pre @ post)"
  by (simp add: load_findings_append)

lemma records_of_None_iff:
  "records_of payload = None \<longleftrightarrow>
     (\<forall>xs. payload \<noteq> JArr xs)
     \<and> (\<forall>kvs xs. payload \<noteq> JObj kvs \<or> map_of kvs ''findings'' \<noteq> Some (JArr xs))"
  by (auto simp add: records_of_def split: json.splits option.splits)

lemma records_of_no_findings: "map_of kvs ''findings'' = None \<Longrightarrow> records_of (JObj kvs) = None"
  by (simp add: records_of_def)

text \<open>
  Claim C8.  A source whose top-level value is neither a list nor a record with a list under
  \<^verbatim>\<open>findings\<close> is skipped by the loader: it contributes no record, the records loaded are
  those of the other sources, and the run returns the report merged from them.  This holds in
  particular for a source whose root is a record without a \<^verbatim>\<open>findings\<close> field.
\<close>

theorem shape_errors_skipped:
  "(records_of payload = None \<longleftrightarrow>
      (\<forall>xs. payload \<noteq> JArr xs)
      \<and> (\<forall>kvs xs. payload \<noteq> JObj kvs \<or> map_of kvs ''findings'' \<noteq> Some (JArr xs)))
   \<and> (records_of payload = None \<longrightarrow>
        load_findings [(path, payload)] = []
        \<and> load_findings (pre @ (path, payload) # post) = load_findings (pre @ post)
        \<and> main alg (pre @ (path, payload) # post) = Inr (build_report alg (load_findings (pre @ post))))
   \<and> (map_of kvs ''findings'' = None \<longrightarrow>
        load_findings [(path, JObj kvs)] = []
        \<and> load_findings (pre @ (path, JObj kvs) # post) = load_findings (pre @ post)
        \<and> main alg (pre @ (path, JObj kvs) # post) = Inr (build_report alg (load_findings (pre @ post))))"
proof -
  have 1: "load_findings [(path, p)] = []
        \<and> load_findings (pre @ (path, p) # post) = load_findings (pre @ post)
        \<and> main alg (pre @ (path, p) # post) = Inr (build_report alg (load_findings (pre @ post)))"
    if "records_of p = None" for p
    using that by (simp add: load_findings_skip main_def)
  have 2: "records_of payload = None \<longrightarrow>
        load_findings [(path, payload)] = []
        \<and> load_findings (pre @ (path, payload) # post) = load_findings (pre @ post)
        \<and> main alg (pre @ (path, payload) # post) = Inr (build_report alg (load_findings (pre @ post)))"
    using 1 [of payload] by (rule impI)
  have 3: "map_of kvs ''findings'' = None \<longrightarrow>
        load_findings [(path, JObj kvs)] = []
        \<and> load_findings (pre @ (path, JObj kvs) # post) = load_findings (pre @ post)
        \<and> main alg (pre @ (path, JObj kvs) # post) = Inr (build_report alg (load_findings (pre @ post)))"
    using 1 [of "JObj kvs"] records_of_no_findings [of kvs] by (intro impI) simp
  show ?thesis
    by (intro conjI records_of_None_iff 2 3)
qed

theorem shape_errors_skipped_witness:
  "records_of (JObj [(''meta'', JStr ''run 7'')]) = None
   \<and> map_of [(''meta'', JStr ''run 7'')] ''findings'' = None
   \<and> load_findings [(''b.json'', JObj [(''meta'', JStr ''run 7'')])] = []
   \<and> main Compensated ([(''a.json'', JArr [JObj scenario_A])] @ (''b.json'', JObj [(''meta'', JStr ''run 7'')])
         # [(''c.json'', JObj [(''findings'', JArr [JObj scenario_B1])])])
       = Inr (build_report Compensated (load_findings ([(''a.json'', JArr [JObj scenario_A])]
           @ [(''c.json'', JObj [(''findings'', JArr [JObj scenario_B1])])])))
   \<and> length (load_findings ([(''a.json'', JArr [JObj scenario_A])]
           @ [(''c.json'', JObj [(''findings'', JArr [JObj scenario_B1])])])) = 2"
proof -
  let ?kvs = "[(''meta'', JStr ''run 7'')]"
  let ?pre = "[(''a.json'', JArr [JObj scenario_A])]"
  let ?post = "[(''c.json'', JObj [(''findings'', JArr [JObj scenario_B1])])]"
  have h: "records_of (JObj ?kvs) = None" "map_of ?kvs ''findings'' = None"
    by code_simp+
  have v: "length (load_findings (?pre @ ?post)) = 2"
    by code_simp
  note inst = shape_errors_skipped [where payload = "JObj ?kvs" and path = "''b.json''" and pre = ?pre
      and post = ?post and alg = Compensated and kvs = ?kvs]
  from inst h have 1: "load_findings [(''b.json'', JObj ?kvs)] = []"
    "main Compensated (?pre @ (''b.json'', JObj ?kvs) # ?post) = Inr (build_report Compensated (load_findings (?pre @ ?post)))"
    by blast+
  show ?thesis
    by (intro conjI) (fact h v 1)+
qed

lemma foldl_plan_step:
  "foldl plan_step p rs =
     \<lparr> quick_wins = quick_wins p @ map plan_item (filter quick_win rs),
       refactors = refactors p @ map plan_item (filter (\<lambda>r. \<not> quick_win r) rs) \<rparr>"
  by (induction rs arbitrary: p) (simp_all add: plan_step_def quick_win_def plan_item_def Let_def)

lemma remediation_plan_filter:
  "remediation_plan rs =
     \<lparr> quick_wins = map plan_item (filter quick_win rs),
       refactors = map plan_item (filter (\<lambda>r. \<not> quick_win r) rs) \<rparr>"
  by (simp add: remediation_plan_def foldl_plan_step)

text \<open>
  Claim C9, as amended.  \<^verbatim>\<open>remediation_plan\<close> places every record of the list it is given in
  exactly one of its two lists, as the string \<^verbatim>\<open>id: summary\<close> and in the order of the list:
  in \<^verbatim>\<open>quick_wins\<close> when its tier is T3 or T4 or its detector is \<^verbatim>\<open>naming_consistency\<close> or
  \<^verbatim>\<open>debug_logging_leftovers\<close>, in \<^verbatim>\<open>refactors\<close> otherwise.  The plan of the report is the plan
  of the first ten findings of the ranked merged set whose status is \<^verbatim>\<open>open\<close>, the findings the
  entry \<^verbatim>\<open>next\<close> lists.
\<close>

theorem remediation_split:
  "remediation_plan records =
     \<lparr> quick_wins = map plan_item (filter quick_win records),
       refactors = map plan_item (filter (\<lambda>r. \<not> quick_win r) records) \<rparr>
   \<and> length (quick_wins (remediation_plan records)) + length (refactors (remediation_plan records))
       = length records
   \<and> report_plan (build_report alg loaded)
       = remediation_plan
           (take 10 (filter (\<lambda>r. status r = ''open'') (findings (build_report alg loaded))))
   \<and> next_ids (build_report alg loaded)
       = map fid (take 10 (filter (\<lambda>r. status r = ''open'') (findings (build_report alg loaded))))"
proof -
  have "length (filter quick_win records) + length (filter (\<lambda>r. \<not> quick_win r) records)
      = length records"
    by (rule sum_length_filter_compl)
  then show ?thesis
    by (simp add: remediation_plan_filter build_report_def Let_def)
qed

lemma main_single_file:
  "main alg [(path, JArr [JObj r])] = Inr (build_report alg [AList.update ''_source'' (JStr path) r])"
  by (simp add: main_def records_of_def tag_records_def)

theorem remediation_split_witness:
  "remediation_plan [initial_record scenario_A, initial_record scenario_C1, initial_record []]
     = \<lparr> quick_wins = [''pending: ''],
         refactors = [''pending: unused func'', ''pending: copy of parse loop''] \<rparr>
   \<and> report_plan (build_report Compensated [scenario_A])
       = \<lparr> quick_wins = [], refactors = [''F001: unused func''] \<rparr>"
proof -
  let ?rs = "[initial_record scenario_A, initial_record scenario_C1, initial_record []]"
  let ?a = "(initial_record scenario_A)\<lparr>fid := ''F001''\<rparr>"
  have v: "\<lparr> quick_wins = map plan_item (filter quick_win ?rs),
       refactors = map plan_item (filter (\<lambda>r. \<not> quick_win r) ?rs) \<rparr>
     = \<lparr> quick_wins = [''pending: ''],
         refactors = [''pending: unused func'', ''pending: copy of parse loop''] \<rparr>"
    "remediation_plan (take 10 (filter (\<lambda>r. status r = ''open'') [?a]))
     = \<lparr> quick_wins = [], refactors = [''F001: unused func''] \<rparr>"
    by code_simp+
  have f: "findings (build_report Compensated [scenario_A]) = [?a]"
    by (simp add: build_report_single Let_def)
  note inst = remediation_split [where records = ?rs and alg = Compensated and loaded = "[scenario_A]"]
  from inst have "remediation_plan ?rs
     = \<lparr> quick_wins = map plan_item (filter quick_win ?rs),
       refactors = map plan_item (filter (\<lambda>r. \<not> quick_win r) ?rs) \<rparr>"
    by blast
  then have 1: "remediation_plan ?rs = \<lparr> quick_wins = [''pending: ''],
         refactors = [''pending: unused func'', ''pending: copy of parse loop''] \<rparr>"
    by (simp only: v(1))
  from inst have "report_plan (build_report Compensated [scenario_A])
       = remediation_plan
           (take 10 (filter (\<lambda>r. status r = ''open'') (findings (build_report Compensated [scenario_A]))))"
    by blast
  then have 2: "report_plan (build_report Compensated [scenario_A])
       = \<lparr> quick_wins = [], refactors = [''F001: unused func''] \<rparr>"
    by (simp only: f v(2))
  show ?thesis
    by (intro conjI) (fact 1 2)+
qed

theorem remediation_split_counterexample:
  "main Compensated [(''findings.json'', JArr [JObj scenario_C1])]
     = Inr (build_report Compensated [AList.update ''_source'' (JStr ''findings.json'') scenario_C1])
   \<and> map status (findings (build_report Compensated
         [AList.update ''_source'' (JStr ''findings.json'') scenario_C1])) = [''fixed'']
   \<and> report_plan (build_report Compensated [AList.update ''_source'' (JStr ''findings.json'') scenario_C1])
       = \<lparr> quick_wins = [], refactors = [] \<rparr>"
proof -
  let ?r = "AList.update ''_source'' (JStr ''findings.json'') scenario_C1"
  have s: "status (initial_record ?r) = ''fixed''"
    by code_simp
  have 1: "map status (findings (build_report Compensated [?r])) = [''fixed'']"
    by (simp add: build_report_single Let_def s)
  have 2: "report_plan (build_report Compensated [?r]) = \<lparr> quick_wins = [], refactors = [] \<rparr>"
    by (simp add: build_report_single Let_def s remediation_plan_def)
  show ?thesis
    by (intro conjI main_single_file 1 2)
qed





































end
